theory Spec2Isabelle
  imports Complex_Main "HOL-Library.Log_Nat" "HOL-Library.Word"
begin

section \<open>SkScalar: single-precision floating point\<close>

text \<open>
  \<^verbatim>\<open>SkScalar\<close> is the C++ type \<^verbatim>\<open>float\<close> (IEEE 754 binary32). A value is
  a signed finite number, a signed infinity or a NaN. A finite value is kept as its sign
  (\<open>True\<close> for negative) and its magnitude, an exact rational, so that the two zeros
  stay apart. Arithmetic computes the exact result and rounds it to the nearest
  representable value, ties to even, as the default rounding mode does.
\<close>

datatype SkScalar = SkFinite bool rat | SkInfinity bool | SkNaN

definition pow2 :: "int \<Rightarrow> rat" where
  "pow2 e = (if 0 \<le> e then 2 ^ nat e else 1 / 2 ^ nat (- e))"

text \<open>The exponent of a positive rational \<open>r\<close>: the \<open>e\<close> with \<open>2^e \<le> r < 2^(e+1)\<close>.\<close>

definition ilog2 :: "rat \<Rightarrow> int" where
  "ilog2 r =
     (let (a, b) = quotient_of r;
          e0 = bitlen a - bitlen b
      in if pow2 e0 \<le> r then e0 else e0 - 1)"

definition round_half_even :: "rat \<Rightarrow> int" where
  "round_half_even x =
     (let f = \<lfloor>x\<rfloor>; d = x - of_int f
      in if d < 1 / 2 then f
         else if 1 / 2 < d then f + 1
         else if even f then f else f + 1)"

text \<open>
  Rounding a magnitude \<open>r \<ge> 0\<close> with sign \<open>s\<close> to binary32: 24 significant bits,
  least exponent \<open>-126\<close> (below it the spacing stays \<open>2^-149\<close>: subnormal numbers),
  overflow to infinity from \<open>2^128\<close> on.
\<close>

definition round_binary32 :: "bool \<Rightarrow> rat \<Rightarrow> SkScalar" where
  "round_binary32 s r =
     (if r = 0 then SkFinite s 0
      else let e = max (ilog2 r) (- 126);
               q = pow2 (e - 23);
               v = of_int (round_half_even (r / q)) * q
           in if pow2 128 \<le> v then SkInfinity s else SkFinite s v)"

text \<open>The operator \<^verbatim>\<open>*\<close> on two floats.\<close>

fun sk_mul :: "SkScalar \<Rightarrow> SkScalar \<Rightarrow> SkScalar" where
  "sk_mul SkNaN _ = SkNaN"
| "sk_mul _ SkNaN = SkNaN"
| "sk_mul (SkInfinity s) (SkInfinity t) = SkInfinity (s \<noteq> t)"
| "sk_mul (SkInfinity s) (SkFinite t r) = (if r = 0 then SkNaN else SkInfinity (s \<noteq> t))"
| "sk_mul (SkFinite s r) (SkInfinity t) = (if r = 0 then SkNaN else SkInfinity (s \<noteq> t))"
| "sk_mul (SkFinite s a) (SkFinite t b) = round_binary32 (s \<noteq> t) (a * b)"

text \<open>The operator \<^verbatim>\<open>/\<close> on two floats. Dividing by zero does not trap: a nonzero
  dividend gives an infinity, a zero dividend gives NaN.\<close>

fun sk_div :: "SkScalar \<Rightarrow> SkScalar \<Rightarrow> SkScalar" where
  "sk_div SkNaN _ = SkNaN"
| "sk_div _ SkNaN = SkNaN"
| "sk_div (SkInfinity s) (SkInfinity t) = SkNaN"
| "sk_div (SkInfinity s) (SkFinite t r) = SkInfinity (s \<noteq> t)"
| "sk_div (SkFinite s r) (SkInfinity t) = SkFinite (s \<noteq> t) 0"
| "sk_div (SkFinite s a) (SkFinite t b) =
     (if b = 0 then (if a = 0 then SkNaN else SkInfinity (s \<noteq> t))
      else round_binary32 (s \<noteq> t) (a / b))"

text \<open>\<^verbatim>\<open>SkScalarFloorToScalar\<close>, that is \<^verbatim>\<open>floorf\<close>: the largest integral value not
  above the argument, as a float; infinities, NaN and both zeros are returned as they are.\<close>

fun SkScalarFloorToScalar :: "SkScalar \<Rightarrow> SkScalar" where
  "SkScalarFloorToScalar SkNaN = SkNaN"
| "SkScalarFloorToScalar (SkInfinity s) = SkInfinity s"
| "SkScalarFloorToScalar (SkFinite s r) =
     SkFinite s (of_int (if s then \<lceil>r\<rceil> else \<lfloor>r\<rfloor>))"

text \<open>The conversion of an \<^verbatim>\<open>int\<close> to \<^verbatim>\<open>float\<close> (\<^verbatim>\<open>(SkScalar)n\<close>).\<close>

definition SkIntToScalar :: "int \<Rightarrow> SkScalar" where
  "SkIntToScalar n = round_binary32 (n < 0) (of_int \<bar>n\<bar>)"


definition SK_Scalar1 :: SkScalar where
  "SK_Scalar1 = SkFinite False 1"

text \<open>A float is strictly positive when it is a positive finite number or \<open>+\<infinity>\<close>.\<close>

fun sk_positive :: "SkScalar \<Rightarrow> bool" where
  "sk_positive (SkFinite s r) = (\<not> s \<and> 0 < r)"
| "sk_positive (SkInfinity s) = (\<not> s)"
| "sk_positive SkNaN = False"

fun sk_positive_finite :: "SkScalar \<Rightarrow> bool" where
  "sk_positive_finite (SkFinite s r) = (\<not> s \<and> 0 < r)"
| "sk_positive_finite _ = False"

text \<open>Neither negative nor NaN: \<open>+0\<close>, a positive finite number or \<open>+\<infinity>\<close>.\<close>

fun sk_nonnegative :: "SkScalar \<Rightarrow> bool" where
  "sk_nonnegative (SkFinite s r) = (\<not> s \<and> 0 \<le> r)"
| "sk_nonnegative (SkInfinity s) = (\<not> s)"
| "sk_nonnegative SkNaN = False"

text \<open>The comparison \<^verbatim>\<open><=\<close> on two floats: false when either is NaN.\<close>

fun sk_le :: "SkScalar \<Rightarrow> SkScalar \<Rightarrow> bool" where
  "sk_le SkNaN _ = False"
| "sk_le _ SkNaN = False"
| "sk_le (SkInfinity s) (SkInfinity t) = (s \<or> \<not> t)"
| "sk_le (SkInfinity s) (SkFinite t b) = s"
| "sk_le (SkFinite s a) (SkInfinity t) = (\<not> t)"
| "sk_le (SkFinite s a) (SkFinite t b) = ((if s then - a else a) \<le> (if t then - b else b))"

section \<open>The types of the collaborators\<close>

text \<open>
  Modelled from the spec: the classes \<^verbatim>\<open>SkTypeface\<close>, \<^verbatim>\<open>SkFont\<close>,
  \<^verbatim>\<open>SkPaint\<close>, \<^verbatim>\<open>SkSurfaceProps\<close>, \<^verbatim>\<open>SkMatrix\<close> and
  \<^verbatim>\<open>SkScalerContextEffects\<close> are declared in headers outside this file. They hold
  what section 6 (Input) lists: a font is a typeface reference, size, scale, skew,
  hinting, edging and subpixel flag; a paint is colour, style, mask filter, path effect
  and shader; surface properties are flags and pixel geometry; the device transform is a
  matrix of scalars. The accessors' names are the field names, and a setter stores its
  argument in the field. A reference-counted object (\<^verbatim>\<open>sk_sp<T>\<close>, or a raw
  pointer to it) is the identity of the object, \<open>None\<close> for the null pointer.
\<close>

type_synonym ref = nat

datatype SkFontHinting =
  SkFontHinting_kNone | SkFontHinting_kSlight | SkFontHinting_kNormal | SkFontHinting_kFull

datatype Edging = kAlias | kAntiAlias | kSubpixelAntiAlias

datatype SkPixelGeometry =
  kUnknown_SkPixelGeometry | kRGB_H_SkPixelGeometry | kBGR_H_SkPixelGeometry
  | kRGB_V_SkPixelGeometry | kBGR_V_SkPixelGeometry

datatype SkScalerContextFlags =
  SkScalerContextFlags_kNone | kFakeGamma | kBoostContrast | kFakeGammaAndBoostContrast

datatype Style = kFill_Style | kStroke_Style | kStrokeAndFill_Style

text \<open>A typeface: its identity and what \<^verbatim>\<open>getUnitsPerEm()\<close> returns, a C++
  \<^verbatim>\<open>int\<close>.\<close>

record SkTypeface =
  uniqueID :: nat
  getUnitsPerEm :: "32 word"

record SkFont =
  getTypeface :: "SkTypeface option"
  getSize :: SkScalar
  getScaleX :: SkScalar
  getSkewX :: SkScalar
  isSubpixel :: bool
  getEdging :: Edging
  getHinting :: SkFontHinting

definition setSize :: "SkScalar \<Rightarrow> SkFont \<Rightarrow> SkFont" where
  "setSize s font = font\<lparr>getSize := s\<rparr>"

definition setSubpixel :: "bool \<Rightarrow> SkFont \<Rightarrow> SkFont" where
  "setSubpixel b font = font\<lparr>isSubpixel := b\<rparr>"

definition setHinting :: "SkFontHinting \<Rightarrow> SkFont \<Rightarrow> SkFont" where
  "setHinting h font = font\<lparr>getHinting := h\<rparr>"

definition setEdging :: "Edging \<Rightarrow> SkFont \<Rightarrow> SkFont" where
  "setEdging e font = font\<lparr>getEdging := e\<rparr>"

definition setTypeface :: "SkTypeface option \<Rightarrow> SkFont \<Rightarrow> SkFont" where
  "setTypeface t font = font\<lparr>getTypeface := t\<rparr>"

record SkPaint =
  getColor :: "32 word"
  getStyle :: Style
  getMaskFilter :: "ref option"
  getPathEffect :: "ref option"
  getShader :: "ref option"

text \<open>
  Modelled from the spec: the constructor \<^verbatim>\<open>SkPaint()\<close> is declared outside this
  file. A default-constructed ("neutral") paint carries no effects: absent effects are
  null references (section 4.2). Its colour is opaque black and its style is fill.
\<close>

definition SkPaint_default :: SkPaint where
  "SkPaint_default =
     \<lparr>getColor = 0xFF000000, getStyle = kFill_Style, getMaskFilter = None,
      getPathEffect = None, getShader = None\<rparr>"

text \<open>\<^verbatim>\<open>SkPaint::reset()\<close> puts the paint back to the default-constructed one.\<close>

definition reset :: "SkPaint \<Rightarrow> SkPaint" where
  "reset paint = SkPaint_default"

record SkSurfaceProps =
  flags :: "32 word"
  pixelGeometry :: SkPixelGeometry

text \<open>A 3 by 3 matrix of scalars, row by row.\<close>

record SkMatrix =
  kMScaleX :: SkScalar
  kMSkewX :: SkScalar
  kMTransX :: SkScalar
  kMSkewY :: SkScalar
  kMScaleY :: SkScalar
  kMTransY :: SkScalar
  kMPersp0 :: SkScalar
  kMPersp1 :: SkScalar
  kMPersp2 :: SkScalar

definition SkMatrix_I :: SkMatrix where
  "SkMatrix_I =
     \<lparr>kMScaleX = SkFinite False 1, kMSkewX = SkFinite False 0, kMTransX = SkFinite False 0,
      kMSkewY = SkFinite False 0, kMScaleY = SkFinite False 1, kMTransY = SkFinite False 0,
      kMPersp0 = SkFinite False 0, kMPersp1 = SkFinite False 0, kMPersp2 = SkFinite False 1\<rparr>"

text \<open>\<^verbatim>\<open>SkScalerContextEffects{pathEffect, maskFilter}\<close>: two raw pointers.\<close>

datatype SkScalerContextEffects =
  SkScalerContextEffects (effects_fPathEffect: "ref option") (effects_fMaskFilter: "ref option")

section \<open>The collaborators\<close>

text \<open>
  The functions and constants that the file calls and that other files define are
  parameters of the model, collected in one record: \<open>'d\<close> is the type of descriptors,
  \<open>'o\<close> the type \<^verbatim>\<open>GrTextContext::Options\<close>.
  \<^item> \<open>createDescriptor\<close>: the descriptor that
    \<^verbatim>\<open>SkScalerContext::CreateDescriptorAndEffectsUsingPaint\<close> stores in the
    \<^verbatim>\<open>SkAutoDescriptor\<close>;
  \<^item> \<open>setupForAsPaths\<close>: \<^verbatim>\<open>SkFont::setupForAsPaths(SkPaint*)\<close>, the value it
    returns and the font it leaves, given the font and the paint pointed to (\<open>None\<close> for
    \<^verbatim>\<open>nullptr\<close>); \<open>setupForAsPaths_paint\<close>: the paint it leaves behind the pointer;
  \<^item> \<open>ShouldDrawTextAsPaths\<close>: \<^verbatim>\<open>SkDraw::ShouldDrawTextAsPaths\<close>;
  \<^item> \<open>InitDistanceFieldPaint\<close>, \<open>InitDistanceFieldFont\<close>,
    \<open>InitDistanceFieldMinMaxScale\<close>: the functions of \<^verbatim>\<open>GrTextContext\<close>; the
    second one writes the ratio through a pointer, so it takes the value found there and
    returns the value left there;
  \<^item> \<open>defaultTypeface\<close>: the typeface that \<^verbatim>\<open>refTypefaceOrDefault()\<close> returns for a
    font without one;
  \<^item> \<open>SkFont_default\<close>: the default-constructed font \<^verbatim>\<open>SkFont()\<close>;
  \<^item> \<open>kLegacyFontHost\<close>: the value
    \<^verbatim>\<open>SkSurfaceProps(SkSurfaceProps::kLegacyFontHost_InitType)\<close>;
  \<^item> \<open>kSkSideTooBigForAtlas\<close>: the integer constant of \<^verbatim>\<open>SkStrikeCommon\<close>.
\<close>

record ('d, 'o) collaborators =
  createDescriptor ::
    "SkFont \<Rightarrow> SkPaint \<Rightarrow> SkSurfaceProps \<Rightarrow> SkScalerContextFlags \<Rightarrow> SkMatrix \<Rightarrow> 'd"
  setupForAsPaths :: "SkFont \<Rightarrow> SkPaint option \<Rightarrow> SkScalar \<times> SkFont"
  setupForAsPaths_paint :: "SkFont \<Rightarrow> SkPaint \<Rightarrow> SkPaint"
  ShouldDrawTextAsPaths :: "SkFont \<Rightarrow> SkPaint \<Rightarrow> SkMatrix \<Rightarrow> bool"
  InitDistanceFieldPaint :: "SkPaint \<Rightarrow> SkPaint"
  InitDistanceFieldFont :: "SkFont \<Rightarrow> SkMatrix \<Rightarrow> 'o \<Rightarrow> SkScalar \<Rightarrow> SkFont \<times> SkScalar"
  InitDistanceFieldMinMaxScale :: "SkScalar \<Rightarrow> SkMatrix \<Rightarrow> 'o \<Rightarrow> SkScalar \<times> SkScalar"
  defaultTypeface :: SkTypeface
  SkFont_default :: SkFont
  kLegacyFontHost :: SkSurfaceProps
  kSkSideTooBigForAtlas :: int

text \<open>
  Modelled from the spec: \<^verbatim>\<open>SkScalerContext::CreateDescriptorAndEffectsUsingPaint\<close>
  is defined outside this file. It builds the descriptor from its five inputs
  (section 6, \<^verbatim>\<open>createDescriptorAndEffects\<close>) and hands back the effects of the paint:
  its path effect and its mask filter, either of which may be absent (section 4.2).
\<close>

definition CreateDescriptorAndEffectsUsingPaint ::
  "('d, 'o) collaborators \<Rightarrow> SkFont \<Rightarrow> SkPaint \<Rightarrow> SkSurfaceProps \<Rightarrow> SkScalerContextFlags
     \<Rightarrow> SkMatrix \<Rightarrow> 'd \<times> SkScalerContextEffects" where
  "CreateDescriptorAndEffectsUsingPaint ext font paint surfaceProps scalerContextFlags
       deviceMatrix =
     (createDescriptor ext font paint surfaceProps scalerContextFlags deviceMatrix,
      SkScalerContextEffects (getPathEffect paint) (getMaskFilter paint))"

text \<open>
  Modelled from the spec: \<^verbatim>\<open>SkFont::refTypefaceOrDefault()\<close> is defined outside this
  file. A null typeface is replaced by the library default; the result is never null
  (section 4.4, failure semantics).
\<close>

definition refTypefaceOrDefault :: "('d, 'o) collaborators \<Rightarrow> SkFont \<Rightarrow> SkTypeface" where
  "refTypefaceOrDefault ext font =
     (case getTypeface font of None \<Rightarrow> defaultTypeface ext | Some t \<Rightarrow> t)"

section \<open>SkStrikeSpecStorage\<close>

text \<open>
  The members of the class, as the file uses them. \<open>fAutoDescriptor\<close> is \<open>None\<close>
  until a descriptor is stored in it (\<^verbatim>\<open>getDesc()\<close> is then null).
\<close>

record 'd SkStrikeSpecStorage =
  fAutoDescriptor :: "'d option"
  fMaskFilter :: "ref option"
  fPathEffect :: "ref option"
  fTypeface :: "SkTypeface option"
  fStrikeToSourceRatio :: SkScalar

text \<open>
  Modelled from the spec: the default constructor (the member initialisers are in
  \<^verbatim>\<open>SkStrikeSpec.h\<close>). All references are null and \<open>strikeToSourceRatio\<close> has its
  default 1.0 (section 3).
\<close>

definition SkStrikeSpecStorage_default :: "'d SkStrikeSpecStorage" where
  "SkStrikeSpecStorage_default =
     \<lparr>fAutoDescriptor = None, fMaskFilter = None, fPathEffect = None, fTypeface = None,
      fStrikeToSourceRatio = SK_Scalar1\<rparr>"

definition commonSetup ::
  "('d, 'o) collaborators \<Rightarrow> SkFont \<Rightarrow> SkPaint \<Rightarrow> SkSurfaceProps \<Rightarrow> SkScalerContextFlags
     \<Rightarrow> SkMatrix \<Rightarrow> 'd SkStrikeSpecStorage \<Rightarrow> 'd SkStrikeSpecStorage" where
  "commonSetup ext font paint surfaceProps scalerContextFlags deviceMatrix this =
     (let (desc, effects) =
            CreateDescriptorAndEffectsUsingPaint ext font paint surfaceProps
              scalerContextFlags deviceMatrix
      in this\<lparr>fAutoDescriptor := Some desc,
              fMaskFilter := effects_fMaskFilter effects,
              fPathEffect := effects_fPathEffect effects,
              fTypeface := Some (refTypefaceOrDefault ext font)\<rparr>)"

definition MakeMask ::
  "('d, 'o) collaborators \<Rightarrow> SkFont \<Rightarrow> SkPaint \<Rightarrow> SkSurfaceProps \<Rightarrow> SkScalerContextFlags
     \<Rightarrow> SkMatrix \<Rightarrow> 'd SkStrikeSpecStorage" where
  "MakeMask ext font paint surfaceProps scalerContextFlags deviceMatrix =
     (let storage = SkStrikeSpecStorage_default
      in commonSetup ext font paint surfaceProps scalerContextFlags deviceMatrix storage)"

definition MakePath ::
  "('d, 'o) collaborators \<Rightarrow> SkFont \<Rightarrow> SkPaint \<Rightarrow> SkSurfaceProps \<Rightarrow> SkScalerContextFlags
     \<Rightarrow> 'd SkStrikeSpecStorage" where
  "MakePath ext font paint surfaceProps scalerContextFlags =
     (let storage = SkStrikeSpecStorage_default;
          pathPaint = paint;
          pathFont = font;
          (ratio, pathFont') = setupForAsPaths ext pathFont (Some pathPaint);
          pathPaint' = setupForAsPaths_paint ext pathFont pathPaint;
          storage = storage\<lparr>fStrikeToSourceRatio := ratio\<rparr>;
          pathFont'' = setSubpixel False pathFont'
      in commonSetup ext pathFont'' pathPaint' surfaceProps scalerContextFlags SkMatrix_I
           storage)"

text \<open>The text size that \<^verbatim>\<open>MakeSourceFallback\<close> computes in \<^verbatim>\<open>fallbackTextSize\<close>.\<close>

definition fallbackTextSize :: "('d, 'o) collaborators \<Rightarrow> SkFont \<Rightarrow> SkScalar \<Rightarrow> SkScalar" where
  "fallbackTextSize ext font maxSourceGlyphDimension =
     (let maxAtlasDimension = SkIntToScalar (kSkSideTooBigForAtlas ext - 2);
          runFontTextSize = getSize font
      in SkScalarFloorToScalar
           (sk_mul (sk_div maxAtlasDimension maxSourceGlyphDimension) runFontTextSize))"

definition MakeSourceFallback ::
  "('d, 'o) collaborators \<Rightarrow> SkFont \<Rightarrow> SkPaint \<Rightarrow> SkSurfaceProps \<Rightarrow> SkScalerContextFlags
     \<Rightarrow> SkScalar \<Rightarrow> 'd SkStrikeSpecStorage" where
  "MakeSourceFallback ext font paint surfaceProps scalerContextFlags maxSourceGlyphDimension =
     (let storage = SkStrikeSpecStorage_default;
          runFontTextSize = getSize font;
          fallbackTextSize' = fallbackTextSize ext font maxSourceGlyphDimension;
          fallbackFont = setSize fallbackTextSize' font;
          fallbackFont' = setSubpixel False fallbackFont;
          storage = storage\<lparr>fStrikeToSourceRatio := sk_div runFontTextSize fallbackTextSize'\<rparr>
      in commonSetup ext fallbackFont' paint surfaceProps scalerContextFlags SkMatrix_I
           storage)"

text \<open>The paint is passed by pointer: \<open>None\<close> is \<^verbatim>\<open>nullptr\<close>.\<close>

definition MakeCanonicalized ::
  "('d, 'o) collaborators \<Rightarrow> SkFont \<Rightarrow> SkPaint option \<Rightarrow> 'd SkStrikeSpecStorage" where
  "MakeCanonicalized ext font paint =
     (let storage = SkStrikeSpecStorage_default;
          canonicalizedPaint = (case paint of None \<Rightarrow> SkPaint_default | Some p \<Rightarrow> p)
      in if ShouldDrawTextAsPaths ext font canonicalizedPaint SkMatrix_I
         then let (ratio, pathFont) = setupForAsPaths ext font None;
                  storage = storage\<lparr>fStrikeToSourceRatio := ratio\<rparr>;
                  canonicalizedPaint = reset canonicalizedPaint
              in commonSetup ext pathFont canonicalizedPaint (kLegacyFontHost ext)
                   kFakeGammaAndBoostContrast SkMatrix_I storage
         else commonSetup ext font canonicalizedPaint (kLegacyFontHost ext)
                kFakeGammaAndBoostContrast SkMatrix_I storage)"

text \<open>
  \<^verbatim>\<open>MakeDefault\<close> calls \<^verbatim>\<open>MakeCanonicalized(defaultFont)\<close> with one argument. The
  default value of the second parameter is in \<^verbatim>\<open>SkStrikeSpec.h\<close>.
  Modelled from the spec: the paint left out is the null paint (section 8, property 6).
\<close>

definition MakeDefault :: "('d, 'o) collaborators \<Rightarrow> 'd SkStrikeSpecStorage" where
  "MakeDefault ext = (let defaultFont = SkFont_default ext in MakeCanonicalized ext defaultFont None)"

text \<open>
  \<^verbatim>\<open>size\<close> is a pointer to an \<^verbatim>\<open>int\<close>: \<open>None\<close> for \<^verbatim>\<open>nullptr\<close>, otherwise the
  value found behind it. The function returns the value left behind it as well.
\<close>

definition MakePDFVector ::
  "('d, 'o) collaborators \<Rightarrow> SkTypeface \<Rightarrow> 32 word option
     \<Rightarrow> 'd SkStrikeSpecStorage \<times> 32 word option" where
  "MakePDFVector ext typeface size_ptr =
     (let font = SkFont_default ext;
          font = setHinting SkFontHinting_kNone font;
          font = setEdging kAlias font;
          font = setTypeface (Some typeface) font;
          unitsPerEm = getUnitsPerEm typeface;
          unitsPerEm = (if sint unitsPerEm \<le> 0 then 1024 else unitsPerEm);
          size_ptr = (case size_ptr of None \<Rightarrow> None | Some _ \<Rightarrow> Some unitsPerEm);
          font = setSize (SkIntToScalar (sint unitsPerEm)) font;
          storage = SkStrikeSpecStorage_default
      in (commonSetup ext font SkPaint_default
            \<lparr>flags = 0, pixelGeometry = kUnknown_SkPixelGeometry\<rparr>
            kFakeGammaAndBoostContrast SkMatrix_I storage,
          size_ptr))"

definition MakeSDFT ::
  "('d, 'o) collaborators \<Rightarrow> SkFont \<Rightarrow> SkPaint \<Rightarrow> SkSurfaceProps \<Rightarrow> SkMatrix \<Rightarrow> 'o
     \<Rightarrow> 'd SkStrikeSpecStorage \<times> SkScalar \<times> SkScalar" where
  "MakeSDFT ext font paint surfaceProps deviceMatrix options =
     (let storage = SkStrikeSpecStorage_default;
          dfPaint = InitDistanceFieldPaint ext paint;
          (dfFont, ratio) =
            InitDistanceFieldFont ext font deviceMatrix options (fStrikeToSourceRatio storage);
          storage = storage\<lparr>fStrikeToSourceRatio := ratio\<rparr>;
          flags = SkScalerContextFlags_kNone;
          (minScale, maxScale) =
            InitDistanceFieldMinMaxScale ext (getSize font) deviceMatrix options
      in (commonSetup ext dfFont dfPaint surfaceProps flags SkMatrix_I storage,
          minScale, maxScale))"

section \<open>Resolving against a cache\<close>

text \<open>
  The caches are other classes. A cache is modelled by the calls it receives: each of the
  three entry points the file uses is a constructor carrying the arguments of the call,
  and a cache is any function from a call and its own state to a strike handle and a new
  state.
\<close>

datatype 'd cache_call =
  findOrCreateStrikeExclusive 'd SkScalerContextEffects SkTypeface
  | findOrCreateScopedStrike_call 'd SkScalerContextEffects SkTypeface
  | getStrike 'd

text \<open>Dereferencing a null \<^verbatim>\<open>getDesc()\<close> or a null \<open>fTypeface\<close> is the error.\<close>

datatype error = NullDereference

text \<open>
  The three resolvers are \<^verbatim>\<open>const\<close> member functions. The state they run in is the
  object itself and the cache; they return the handle with that state.
\<close>

definition findOrCreateGrStrike ::
  "('d cache_call \<Rightarrow> 'c \<Rightarrow> 'h \<times> 'c) \<Rightarrow> 'd SkStrikeSpecStorage \<times> 'c
     \<Rightarrow> error + ('h \<times> 'd SkStrikeSpecStorage \<times> 'c)" where
  "findOrCreateGrStrike cache_step st =
     (case st of (this, cache) \<Rightarrow>
        (case fAutoDescriptor this of
           None \<Rightarrow> Inl NullDereference
         | Some desc \<Rightarrow>
             (let (strike, cache') = cache_step (getStrike desc) cache
              in Inr (strike, this, cache'))))"

definition findOrCreateScopedStrike ::
  "('d cache_call \<Rightarrow> 'c \<Rightarrow> 'h \<times> 'c) \<Rightarrow> 'd SkStrikeSpecStorage \<times> 'c
     \<Rightarrow> error + ('h \<times> 'd SkStrikeSpecStorage \<times> 'c)" where
  "findOrCreateScopedStrike cache_step st =
     (case st of (this, cache) \<Rightarrow>
        (let effects = SkScalerContextEffects (fPathEffect this) (fMaskFilter this)
         in case (fAutoDescriptor this, fTypeface this) of
              (Some desc, Some typeface) \<Rightarrow>
                (let (strike, cache') =
                       cache_step (findOrCreateScopedStrike_call desc effects typeface) cache
                 in Inr (strike, this, cache'))
            | _ \<Rightarrow> Inl NullDereference))"

definition findOrCreateExclusiveStrike ::
  "('d cache_call \<Rightarrow> 'c \<Rightarrow> 'h \<times> 'c) \<Rightarrow> 'd SkStrikeSpecStorage \<times> 'c
     \<Rightarrow> error + ('h \<times> 'd SkStrikeSpecStorage \<times> 'c)" where
  "findOrCreateExclusiveStrike cache_step st =
     (case st of (this, cache) \<Rightarrow>
        (let effects = SkScalerContextEffects (fPathEffect this) (fMaskFilter this)
         in case (fAutoDescriptor this, fTypeface this) of
              (Some desc, Some typeface) \<Rightarrow>
                (let (strike, cache') =
                       cache_step (findOrCreateStrikeExclusive desc effects typeface) cache
                 in Inr (strike, this, cache'))
            | _ \<Rightarrow> Inl NullDereference))"


section \<open>The canonical form for paths, from the specification\<close>

text \<open>
  Modelled from the spec: \<^verbatim>\<open>SkFont::setupForAsPaths\<close> is defined outside this file.
  It puts the font into its canonical form for rendering as paths: a fixed size that the
  library defines, no subpixel positioning, no hinting (section 4.4, Path). The value it
  returns is the scale ratio \<open>requestedSize / internalSize\<close> (section 4.1), a division of
  two \<^verbatim>\<open>SkScalar\<close>s. The canonical size is a parameter. What it does to the paint
  behind the pointer is not said and stays with \<open>setupForAsPaths_paint\<close>.
\<close>

definition setupForAsPaths_spec :: "SkScalar \<Rightarrow> SkFont \<Rightarrow> SkPaint option \<Rightarrow> SkScalar \<times> SkFont" where
  "setupForAsPaths_spec canonicalSize font paint =
     (sk_div (getSize font) canonicalSize,
      font\<lparr>getSize := canonicalSize, isSubpixel := False, getHinting := SkFontHinting_kNone\<rparr>)"

section \<open>An instance of the collaborators\<close>

text \<open>
  The examples below run the constructors with these collaborators. The descriptor is
  the tuple of the five values it is created from, so that it shows each of them.
  \<^verbatim>\<open>setupForAsPaths\<close> is the canonical form above with the canonical size 64; it
  makes the paint a fill without path effect. Text is
  drawn as paths when the paint strokes. The distance-field font has size 32 when the
  horizontal scale of the matrix is below 2 and size 64 otherwise.
\<close>

type_synonym example_descriptor =
  "SkFont \<times> SkPaint \<times> SkSurfaceProps \<times> SkScalerContextFlags \<times> SkMatrix"

definition example_dfSize :: "SkMatrix \<Rightarrow> SkScalar" where
  "example_dfSize m =
     (if sk_le (SkFinite False 2) (kMScaleX m) then SkFinite False 64 else SkFinite False 32)"

definition example_collaborators :: "(example_descriptor, unit) collaborators" where
  "example_collaborators =
     \<lparr>createDescriptor = (\<lambda>font paint surfaceProps fl m. (font, paint, surfaceProps, fl, m)),
      setupForAsPaths = setupForAsPaths_spec (SkFinite False 64),
      setupForAsPaths_paint =
        (\<lambda>font paint. paint\<lparr>getStyle := kFill_Style, getPathEffect := None\<rparr>),
      ShouldDrawTextAsPaths = (\<lambda>font paint m. getStyle paint = kStroke_Style),
      InitDistanceFieldPaint = (\<lambda>paint. paint\<lparr>getMaskFilter := Some 1\<rparr>),
      InitDistanceFieldFont =
        (\<lambda>font m options ratio.
           (font\<lparr>getSize := example_dfSize m\<rparr>, sk_div (getSize font) (example_dfSize m))),
      InitDistanceFieldMinMaxScale =
        (\<lambda>size m options.
           (sk_div (SkFinite False 16) (example_dfSize m),
            sk_div (SkFinite False 128) (example_dfSize m))),
      defaultTypeface = \<lparr>uniqueID = 0, getUnitsPerEm = 2048\<rparr>,
      SkFont_default =
        \<lparr>getTypeface = None, getSize = SkFinite False 12, getScaleX = SkFinite False 1,
         getSkewX = SkFinite False 0, isSubpixel = False, getEdging = kAntiAlias,
         getHinting = SkFontHinting_kNormal\<rparr>,
      kLegacyFontHost = \<lparr>flags = 0, pixelGeometry = kUnknown_SkPixelGeometry\<rparr>,
      kSkSideTooBigForAtlas = 4096\<rparr>"

definition example_typeface :: SkTypeface where
  "example_typeface = \<lparr>uniqueID = 3, getUnitsPerEm = 1000\<rparr>"

definition example_font :: SkFont where
  "example_font =
     \<lparr>getTypeface = Some example_typeface, getSize = SkFinite False 100,
      getScaleX = SkFinite False 1, getSkewX = SkFinite False 0, isSubpixel = True,
      getEdging = kSubpixelAntiAlias, getHinting = SkFontHinting_kSlight\<rparr>"

definition example_paint :: SkPaint where
  "example_paint =
     \<lparr>getColor = 0xFF336699, getStyle = kFill_Style, getMaskFilter = Some 7,
      getPathEffect = Some 9, getShader = None\<rparr>"

definition example_surfaceProps :: SkSurfaceProps where
  "example_surfaceProps = \<lparr>flags = 0, pixelGeometry = kRGB_H_SkPixelGeometry\<rparr>"

text \<open>The storage that \<^verbatim>\<open>MakeMask\<close> builds from the values above.\<close>

definition example_storage :: "example_descriptor SkStrikeSpecStorage" where
  "example_storage =
     MakeMask example_collaborators example_font example_paint example_surfaceProps kFakeGamma
       SkMatrix_I"

text \<open>A cache that keeps the calls it receives, in order, and hands out their index.\<close>

definition recording_cache :: "'d cache_call \<Rightarrow> 'd cache_call list \<Rightarrow> nat \<times> 'd cache_call list" where
  "recording_cache call calls = (length calls, calls @ [call])"

text \<open>What a call hands to the cache besides the descriptor: \<open>None\<close> when the call
  has no such argument.\<close>

fun call_effects :: "'d cache_call \<Rightarrow> SkScalerContextEffects option" where
  "call_effects (findOrCreateStrikeExclusive desc effects typeface) = Some effects"
| "call_effects (findOrCreateScopedStrike_call desc effects typeface) = Some effects"
| "call_effects (getStrike desc) = None"

fun call_typeface :: "'d cache_call \<Rightarrow> SkTypeface option" where
  "call_typeface (findOrCreateStrikeExclusive desc effects typeface) = Some typeface"
| "call_typeface (findOrCreateScopedStrike_call desc effects typeface) = Some typeface"
| "call_typeface (getStrike desc) = None"

section \<open>Facts about the arithmetic\<close>

lemma pow2_pos: "0 < pow2 e"
  by (simp add: pow2_def)

lemma round_half_even_nonneg: "0 \<le> x \<Longrightarrow> 0 \<le> round_half_even x"
  by (simp add: round_half_even_def Let_def)

lemma round_binary32_nonnegative: "0 \<le> r \<Longrightarrow> sk_nonnegative (round_binary32 False r)"
  by (simp add: round_binary32_def Let_def pow2_pos round_half_even_nonneg less_imp_le)

lemma sk_div_nonnegative:
  "sk_nonnegative x \<Longrightarrow> sk_positive_finite y \<Longrightarrow> sk_nonnegative (sk_div x y)"
  by (cases x; cases y) (auto simp: round_binary32_nonnegative)

lemma sk_mul_nonnegative:
  "sk_nonnegative x \<Longrightarrow> sk_positive_finite y \<Longrightarrow> sk_nonnegative (sk_mul x y)"
  by (cases x; cases y) (auto simp: round_binary32_nonnegative)

lemma floor_nonnegative: "sk_nonnegative x \<Longrightarrow> sk_nonnegative (SkScalarFloorToScalar x)"
  by (cases x) auto

lemma floor_positive_iff:
  "sk_nonnegative x \<Longrightarrow> sk_positive (SkScalarFloorToScalar x) \<longleftrightarrow> sk_le SK_Scalar1 x"
  by (cases x) (auto simp: SK_Scalar1_def le_floor_iff less_le_trans)

lemma nonnegative_not_positive:
  "sk_nonnegative x \<Longrightarrow> \<not> sk_positive x \<Longrightarrow> x = SkFinite False 0"
  by (cases x) auto

lemma SkIntToScalar_nonnegative: "0 \<le> n \<Longrightarrow> sk_nonnegative (SkIntToScalar n)"
  by (simp add: SkIntToScalar_def round_binary32_nonnegative)

lemma sk_div_by_zero:
  "sk_positive_finite x \<Longrightarrow> sk_div x (SkFinite False 0) = SkInfinity False"
  by (cases x) auto

lemma fallback_example_size:
  "SkScalarFloorToScalar
     (sk_mul (sk_div (SkIntToScalar (4096 - 2)) (SkFinite False 500)) (SkFinite False 100)) =
   SkFinite False 818"
  by code_simp

lemma fallback_example_ratio:
  "sk_div (SkFinite False 100) (SkFinite False 818) = SkFinite False (16408035 / 134217728)"
  by code_simp

lemma pow2_powi: "pow2 e = 2 powi e"
  by (simp add: pow2_def power_int_def power_one_over inverse_eq_divide)

lemma pow2_add: "pow2 (a + b) = pow2 a * pow2 b"
  by (simp add: pow2_powi power_int_add)

lemma pow2_strict_mono: "a < b \<Longrightarrow> pow2 a < pow2 b"
  by (simp add: pow2_powi power_int_strict_increasing)

lemma pow2_mono: "a \<le> b \<Longrightarrow> pow2 a \<le> pow2 b"
  by (simp add: pow2_powi power_int_increasing)

lemma pow2_less_iff: "pow2 a < pow2 b \<longleftrightarrow> a < b"
  by (metis pow2_strict_mono pow2_mono not_less leD)

lemma pow2_le_iff: "pow2 a \<le> pow2 b \<longleftrightarrow> a \<le> b"
  by (metis pow2_strict_mono pow2_mono not_less leD)

lemma bitlen_bounds_rat:
  assumes "0 < a"
  shows "pow2 (bitlen a - 1) \<le> of_int a" and "of_int a < pow2 (bitlen a)"
proof -
  have pos: "1 \<le> bitlen a"
    using assms bitlen_eq_zero_iff [of a] bitlen_nonneg [of a] by linarith
  have "(2::int) ^ nat (bitlen a - 1) \<le> a" and "a < 2 ^ nat (bitlen a)"
    using bitlen_bounds [OF assms] by simp_all
  then have "(of_int (2 ^ nat (bitlen a - 1)) :: rat) \<le> of_int a"
    and "(of_int a :: rat) < of_int (2 ^ nat (bitlen a))"
    by (simp_all only: of_int_le_iff of_int_less_iff)
  then show "pow2 (bitlen a - 1) \<le> of_int a" and "of_int a < pow2 (bitlen a)"
    using pos by (simp_all add: pow2_def)
qed

lemma ilog2_bounds:
  assumes "0 < r"
  shows "pow2 (ilog2 r) \<le> r \<and> r < pow2 (ilog2 r + 1)"
proof -
  obtain a b where q: "quotient_of r = (a, b)"
    by (cases "quotient_of r")
  have b: "0 < b"
    using q by (rule quotient_of_denom_pos)
  have r: "r = of_int a / of_int b"
    using q by (rule quotient_of_div)
  have a: "0 < a"
    using assms b by (simp add: r zero_less_divide_iff)
  let ?e = "bitlen a - bitlen b"
  have upper: "r < pow2 (?e + 1)"
  proof -
    have "of_int a < pow2 (bitlen a)" "pow2 (bitlen b - 1) \<le> of_int b"
      using a b by (simp_all add: bitlen_bounds_rat)
    then have "of_int a * pow2 (bitlen b - 1) < pow2 (bitlen a) * of_int b"
      using a b by (intro mult_less_le_imp_less) (simp_all add: pow2_pos less_imp_le)
    moreover have "pow2 (bitlen a) = pow2 (?e + 1) * pow2 (bitlen b - 1)"
      by (simp add: pow2_add [symmetric])
    ultimately have "of_int a < pow2 (?e + 1) * of_int b"
      using pow2_pos [of "bitlen b - 1"] by (simp add: mult.assoc mult.left_commute mult.commute)
    then show ?thesis
      using b by (simp add: r pos_divide_less_eq)
  qed
  have lower: "pow2 (?e - 1) \<le> r"
  proof -
    have "pow2 (bitlen a - 1) \<le> of_int a" "of_int b < pow2 (bitlen b)"
      using a b by (simp_all add: bitlen_bounds_rat)
    then have "pow2 (bitlen a - 1) * of_int b \<le> of_int a * pow2 (bitlen b)"
      using a b by (intro mult_mono) (simp_all add: pow2_pos less_imp_le)
    moreover have "pow2 (bitlen a - 1) = pow2 (?e - 1) * pow2 (bitlen b)"
      by (simp add: pow2_add [symmetric])
    ultimately have "pow2 (?e - 1) * of_int b \<le> of_int a"
      using pow2_pos [of "bitlen b"] by (simp add: mult.assoc mult.left_commute mult.commute)
    then show ?thesis
      using b by (simp add: r pos_le_divide_eq)
  qed
  show ?thesis
    using upper lower by (simp add: ilog2_def q Let_def not_le)
qed


lemma round_half_even_error: "\<bar>of_int (round_half_even x) - x\<bar> \<le> 1 / 2"
proof -
  have "of_int \<lfloor>x\<rfloor> \<le> x" "x < of_int \<lfloor>x\<rfloor> + 1"
    by linarith+
  then show ?thesis
    by (auto simp: round_half_even_def Let_def abs_le_iff not_less)
qed

lemma round_half_even_of_int: "round_half_even (of_int n) = n"
  by (simp add: round_half_even_def)

text \<open>In the range of the normal numbers rounding gives a finite value with a relative error
  of at most \<open>2^-24\<close>.\<close>

lemma round_binary32_normal:
  assumes lo: "pow2 (- 126) \<le> r" and hi: "r < pow2 127"
  shows "\<exists>v. round_binary32 s r = SkFinite s v \<and> \<bar>v - r\<bar> \<le> r / 2 ^ 24"
proof -
  have r: "0 < r"
    using lo pow2_pos [of "- 126"] by linarith
  let ?e = "ilog2 r"
  have e: "pow2 ?e \<le> r" "r < pow2 (?e + 1)"
    using ilog2_bounds [OF r] by simp_all
  have "pow2 (- 126) < pow2 (?e + 1)"
    using lo e(2) by linarith
  then have e_lo: "- 126 \<le> ?e"
    by (simp add: pow2_less_iff)
  let ?q = "pow2 (?e - 23)"
  let ?v = "of_int (round_half_even (r / ?q)) * ?q"
  have q: "0 < ?q"
    by (rule pow2_pos)
  have "\<bar>of_int (round_half_even (r / ?q)) - r / ?q\<bar> * ?q \<le> 1 / 2 * ?q"
    using q round_half_even_error [of "r / ?q"] by (intro mult_right_mono) simp_all
  moreover have "\<bar>of_int (round_half_even (r / ?q)) - r / ?q\<bar> * ?q = \<bar>?v - r\<bar>"
  proof -
    have "(of_int (round_half_even (r / ?q)) - r / ?q) * ?q = ?v - r"
      using q by (simp add: left_diff_distrib)
    then have "\<bar>?v - r\<bar> = \<bar>of_int (round_half_even (r / ?q)) - r / ?q\<bar> * \<bar>?q\<bar>"
      by (simp only: abs_mult [symmetric])
    then show ?thesis
      using q by simp
  qed
  moreover have "1 / 2 * ?q = pow2 ?e / 2 ^ 24"
  proof -
    have "pow2 ?e = pow2 (?e - 23) * pow2 23"
      by (simp add: pow2_add [symmetric])
    then show ?thesis
      by (simp add: pow2_def)
  qed
  ultimately have err: "\<bar>?v - r\<bar> \<le> pow2 ?e / 2 ^ 24"
    by simp
  also have "\<dots> \<le> r / 2 ^ 24"
    using e(1) by (simp add: divide_right_mono)
  finally have rel: "\<bar>?v - r\<bar> \<le> r / 2 ^ 24" .
  have "?v - r \<le> \<bar>?v - r\<bar>"
    by (rule abs_ge_self)
  with rel have "?v \<le> r + r / 2 ^ 24"
    by linarith
  also have "\<dots> < r * 2"
    using r by simp
  also have "\<dots> < pow2 127 * 2"
    using hi by simp
  also have "\<dots> = pow2 128"
    by (simp add: pow2_def)
  finally have "\<not> pow2 128 \<le> ?v"
    by simp
  then have "round_binary32 s r = SkFinite s ?v"
    using r e_lo by (simp add: round_binary32_def Let_def max_def)
  then show ?thesis
    using rel by blast
qed

lemma round_binary32_of_int:
  assumes "0 < m" and "m \<le> 2 ^ 24"
  shows "round_binary32 s (of_int m) = SkFinite s (of_int m)"
proof -
  let ?r = "of_int m :: rat"
  have r: "0 < ?r"
    using assms(1) by simp
  let ?e = "ilog2 ?r"
  have e: "pow2 ?e \<le> ?r" "?r < pow2 (?e + 1)"
    using ilog2_bounds [OF r] by simp_all
  have "pow2 0 \<le> ?r"
    using assms(1) by (simp add: pow2_def)
  with e(2) have "pow2 0 < pow2 (?e + 1)"
    by linarith
  then have e_lo: "0 \<le> ?e"
    by (simp add: pow2_less_iff)
  have r_hi: "?r \<le> pow2 24"
  proof -
    have "?r \<le> of_int (2 ^ 24)"
      using assms(2) by (simp only: of_int_le_iff)
    then show ?thesis
      by (simp add: pow2_def)
  qed
  with e(1) have "pow2 ?e \<le> pow2 24"
    by linarith
  then have e_hi: "?e \<le> 24"
    by (simp add: pow2_le_iff)
  let ?q = "pow2 (?e - 23)"
  have exact: "of_int (round_half_even (?r / ?q)) * ?q = ?r"
  proof (cases "?e \<le> 23")
    case True
    then have "?q = 1 / 2 ^ nat (23 - ?e)"
      by (auto simp: pow2_def)
    then have "?r / ?q = of_int (m * 2 ^ nat (23 - ?e))" and q: "?q = 1 / 2 ^ nat (23 - ?e)"
      by simp_all
    then have "round_half_even (?r / ?q) = m * 2 ^ nat (23 - ?e)"
      by (simp only: round_half_even_of_int)
    then show ?thesis
      by (simp add: q)
  next
    case False
    with e_hi have e24: "?e = 24"
      by simp
    with e(1) r_hi have "?r = pow2 24"
      by simp
    then have m: "?r = of_int (2 ^ 24)"
      by (simp add: pow2_def)
    have "?q = 2"
      by (simp add: e24 pow2_def)
    then have "?r / ?q = of_int (2 ^ 23)" and q: "?q = 2"
      by (simp_all add: m)
    then have "round_half_even (?r / ?q) = 2 ^ 23"
      by (simp only: round_half_even_of_int)
    then have "of_int (round_half_even (?r / ?q)) * ?q = of_int (2 ^ 23) * 2"
      by (simp only: q)
    also have "\<dots> = ?r"
      by (simp add: m)
    finally show ?thesis .
  qed
  have "?r < pow2 128"
    using r_hi pow2_strict_mono [of 24 128] by linarith
  then show ?thesis
    using r e_lo by (simp add: round_binary32_def Let_def max_def exact)
qed

lemma SkIntToScalar_exact:
  assumes "0 < n" and "n \<le> 2 ^ 24"
  shows "SkIntToScalar n = SkFinite False (of_int n)"
  using assms round_binary32_of_int [of n False] by (simp add: SkIntToScalar_def)

lemma ratio_roundtrip:
  assumes c: "0 < cr"
    and s_lo: "pow2 (- 125) \<le> sr" and s_hi: "sr < pow2 126"
    and q_lo: "pow2 (- 126) \<le> sr / cr" and q_hi: "sr / cr < pow2 127"
  shows "\<exists>v w. sk_div (SkFinite False sr) (SkFinite False cr) = SkFinite False v \<and> 0 < v
    \<and> sk_mul (SkFinite False cr) (SkFinite False v) = SkFinite False w
    \<and> \<bar>w - sr\<bar> \<le> sr / 2 ^ 22"
proof -
  have s: "0 < sr"
    using s_lo pow2_pos [of "- 125"] by linarith
  obtain v where v: "round_binary32 False (sr / cr) = SkFinite False v"
    and v_err: "\<bar>v - sr / cr\<bar> \<le> sr / cr / 2 ^ 24"
    using round_binary32_normal [OF q_lo q_hi] by blast
  have div: "sk_div (SkFinite False sr) (SkFinite False cr) = SkFinite False v"
    using c v by simp
  have prod_err: "\<bar>cr * v - sr\<bar> \<le> sr / 2 ^ 24"
  proof -
    have "cr * \<bar>v - sr / cr\<bar> \<le> cr * (sr / cr / 2 ^ 24)"
      using c v_err by (intro mult_left_mono) simp_all
    moreover have "cr * \<bar>v - sr / cr\<bar> = \<bar>cr * v - sr\<bar>"
    proof -
      have "cr * (v - sr / cr) = cr * v - sr"
        using c by (simp add: right_diff_distrib)
      then have "\<bar>cr * v - sr\<bar> = \<bar>cr\<bar> * \<bar>v - sr / cr\<bar>"
        by (simp only: abs_mult [symmetric])
      then show ?thesis
        using c by simp
    qed
    moreover have "cr * (sr / cr / 2 ^ 24) = sr / 2 ^ 24"
      using c by simp
    ultimately show ?thesis
      by simp
  qed
  then have bounds: "sr - sr / 2 ^ 24 \<le> cr * v" "cr * v \<le> sr + sr / 2 ^ 24"
    by linarith+
  have "0 < sr - sr / 2 ^ 24"
    using s by simp
  with bounds(1) have cv: "0 < cr * v"
    by linarith
  then have v_pos: "0 < v"
    using c by (simp add: zero_less_mult_iff)
  have "pow2 (- 126) = pow2 (- 125) / 2"
    by (simp add: pow2_def)
  also have "\<dots> \<le> sr / 2"
    using s_lo by simp
  also have "\<dots> \<le> sr - sr / 2 ^ 24"
    using s by simp
  finally have p_lo: "pow2 (- 126) \<le> cr * v"
    using bounds(1) by linarith
  have "sr + sr / 2 ^ 24 < sr * 2"
    using s by simp
  also have "\<dots> < pow2 126 * 2"
    using s_hi by simp
  also have "\<dots> = pow2 127"
    by (simp add: pow2_def)
  finally have p_hi: "cr * v < pow2 127"
    using bounds(2) by linarith
  obtain w where w: "round_binary32 False (cr * v) = SkFinite False w"
    and w_err: "\<bar>w - cr * v\<bar> \<le> cr * v / 2 ^ 24"
    using round_binary32_normal [OF p_lo p_hi] by blast
  have mul: "sk_mul (SkFinite False cr) (SkFinite False v) = SkFinite False w"
    using w by simp
  have "cr * v / 2 ^ 24 \<le> (sr + sr / 2 ^ 24) / 2 ^ 24"
    using bounds(2) by (simp add: divide_right_mono)
  with w_err have "\<bar>w - cr * v\<bar> \<le> (sr + sr / 2 ^ 24) / 2 ^ 24"
    by linarith
  moreover have "\<bar>w - sr\<bar> \<le> \<bar>w - cr * v\<bar> + \<bar>cr * v - sr\<bar>"
    by linarith
  ultimately have "\<bar>w - sr\<bar> \<le> (sr + sr / 2 ^ 24) / 2 ^ 24 + sr / 2 ^ 24"
    using prod_err by linarith
  also have "\<dots> \<le> sr / 2 ^ 22"
    using s by simp
  finally show ?thesis
    using div v_pos mul by blast
qed

section \<open>The variant constructors\<close>

lemma commonSetup_eq:
  "commonSetup ext font paint surfaceProps scalerContextFlags deviceMatrix this =
     this\<lparr>fAutoDescriptor :=
            Some (createDescriptor ext font paint surfaceProps scalerContextFlags deviceMatrix),
          fMaskFilter := getMaskFilter paint,
          fPathEffect := getPathEffect paint,
          fTypeface := Some (refTypefaceOrDefault ext font)\<rparr>"
  by (simp add: commonSetup_def CreateDescriptorAndEffectsUsingPaint_def)


text \<open>
  C7. \<^verbatim>\<open>MakeMask\<close> hands the font, the paint, the surface properties, the flags and
  the device matrix to descriptor creation as it received them: the descriptor is the one
  created from exactly these five values, the effects are those of the paint as given, the
  typeface is that of the font as given (or the default), and \<open>strikeToSourceRatio\<close> is the
  default 1, which this variant never assigns.
\<close>

theorem MakeMask_passes_inputs_unmodified:
  "MakeMask ext font paint surfaceProps scalerContextFlags deviceMatrix =
     commonSetup ext font paint surfaceProps scalerContextFlags deviceMatrix
       SkStrikeSpecStorage_default
   \<and> fAutoDescriptor (MakeMask ext font paint surfaceProps scalerContextFlags deviceMatrix) =
       Some (createDescriptor ext font paint surfaceProps scalerContextFlags deviceMatrix)
   \<and> fMaskFilter (MakeMask ext font paint surfaceProps scalerContextFlags deviceMatrix) =
       getMaskFilter paint
   \<and> fPathEffect (MakeMask ext font paint surfaceProps scalerContextFlags deviceMatrix) =
       getPathEffect paint
   \<and> fTypeface (MakeMask ext font paint surfaceProps scalerContextFlags deviceMatrix) =
       Some (refTypefaceOrDefault ext font)
   \<and> fStrikeToSourceRatio (MakeMask ext font paint surfaceProps scalerContextFlags deviceMatrix) =
       SkFinite False 1"
  by (simp add: MakeMask_def commonSetup_eq SkStrikeSpecStorage_default_def SK_Scalar1_def
      Let_def)

text \<open>
  C1. \<^verbatim>\<open>MakeSourceFallback\<close> computes the fallback text size as
  \<open>floor (maxAtlasDimension / maxSourceGlyphDimension * S)\<close>, where \<open>S\<close> is the size of
  the font, \<open>maxAtlasDimension\<close> is \<open>kSkSideTooBigForAtlas - 2\<close> and the operations are
  those of \<^verbatim>\<open>SkScalar\<close>; it stores \<open>S / fallbackTextSize\<close> as \<open>strikeToSourceRatio\<close>
  and builds the descriptor for the font at the fallback size, without subpixel
  positioning, against the identity matrix. With \<open>S = 100\<close>, a largest glyph dimension of
  500 and \<open>maxAtlasDimension = 4094\<close> the fallback size is 818 and the ratio is the float
  quotient of 100 by 818.
\<close>

theorem MakeSourceFallback_size_and_ratio:
  "fallbackTextSize ext font d =
     SkScalarFloorToScalar
       (sk_mul (sk_div (SkIntToScalar (kSkSideTooBigForAtlas ext - 2)) d) (getSize font))
   \<and> fStrikeToSourceRatio (MakeSourceFallback ext font paint surfaceProps scalerContextFlags d) =
       sk_div (getSize font) (fallbackTextSize ext font d)
   \<and> fAutoDescriptor (MakeSourceFallback ext font paint surfaceProps scalerContextFlags d) =
       Some (createDescriptor ext
               (font\<lparr>getSize := fallbackTextSize ext font d, isSubpixel := False\<rparr>)
               paint surfaceProps scalerContextFlags SkMatrix_I)
   \<and> fallbackTextSize (ext\<lparr>kSkSideTooBigForAtlas := 4096\<rparr>)
         (font\<lparr>getSize := SkFinite False 100\<rparr>) (SkFinite False 500) =
       SkFinite False 818
   \<and> fStrikeToSourceRatio
         (MakeSourceFallback (ext\<lparr>kSkSideTooBigForAtlas := 4096\<rparr>)
            (font\<lparr>getSize := SkFinite False 100\<rparr>) paint surfaceProps scalerContextFlags
            (SkFinite False 500)) =
       sk_div (SkFinite False 100) (SkFinite False 818)
   \<and> sk_div (SkFinite False 100) (SkFinite False 818) =
       SkFinite False (16408035 / 134217728)"
proof -
  have size: "fallbackTextSize (ext\<lparr>kSkSideTooBigForAtlas := 4096\<rparr>)
      (font\<lparr>getSize := SkFinite False 100\<rparr>) (SkFinite False 500) = SkFinite False 818"
    using fallback_example_size by (simp add: fallbackTextSize_def)
  have ratio: "fStrikeToSourceRatio
      (MakeSourceFallback ext' font' paint surfaceProps scalerContextFlags d') =
      sk_div (getSize font') (fallbackTextSize ext' font' d')" for ext' :: "('a, 'b) collaborators" and font' d'
    by (simp add: MakeSourceFallback_def commonSetup_eq Let_def)
  have desc: "fAutoDescriptor (MakeSourceFallback ext font paint surfaceProps scalerContextFlags d) =
       Some (createDescriptor ext
               (font\<lparr>getSize := fallbackTextSize ext font d, isSubpixel := False\<rparr>)
               paint surfaceProps scalerContextFlags SkMatrix_I)"
    by (simp add: MakeSourceFallback_def commonSetup_eq setSize_def setSubpixel_def Let_def)
  show ?thesis
    using size ratio [of ext font d] desc fallback_example_ratio
      ratio [of "ext\<lparr>kSkSideTooBigForAtlas := 4096\<rparr>" "font\<lparr>getSize := SkFinite False 100\<rparr>"
        "SkFinite False 500"]
    by (simp add: fallbackTextSize_def)
qed



text \<open>
  C2, as the code has it. Nothing clamps the fallback text size above zero. For a
  positive finite text size \<open>S\<close> and a positive finite largest glyph dimension \<open>d\<close>
  (and an atlas limit of at least 2) the fallback text size is never negative and never
  NaN; it is strictly positive exactly when \<open>maxAtlasDimension / d * S\<close>, computed in
  \<^verbatim>\<open>SkScalar\<close>, is at least 1. Otherwise it is \<open>+0\<close>, and the division
  \<open>S / fallbackTextSize\<close> is a floating-point division by zero, which gives
  \<open>+\<infinity>\<close> as \<open>strikeToSourceRatio\<close>.
\<close>

theorem fallbackTextSize_positive_iff:
  assumes "sk_positive_finite (getSize font)"
    and "sk_positive_finite d"
    and "2 \<le> kSkSideTooBigForAtlas ext"
  shows "sk_nonnegative (fallbackTextSize ext font d)
    \<and> (sk_positive (fallbackTextSize ext font d) \<longleftrightarrow>
         sk_le SK_Scalar1
           (sk_mul (sk_div (SkIntToScalar (kSkSideTooBigForAtlas ext - 2)) d) (getSize font)))
    \<and> (\<not> sk_positive (fallbackTextSize ext font d) \<longrightarrow>
         fallbackTextSize ext font d = SkFinite False 0
         \<and> fStrikeToSourceRatio
             (MakeSourceFallback ext font paint surfaceProps scalerContextFlags d) =
           SkInfinity False)"
proof -
  let ?product =
    "sk_mul (sk_div (SkIntToScalar (kSkSideTooBigForAtlas ext - 2)) d) (getSize font)"
  have size: "fallbackTextSize ext font d = SkScalarFloorToScalar ?product"
    by (simp add: fallbackTextSize_def)
  have "sk_nonnegative (SkIntToScalar (kSkSideTooBigForAtlas ext - 2))"
    using assms(3) by (simp add: SkIntToScalar_nonnegative)
  then have product: "sk_nonnegative ?product"
    using assms(1,2) by (simp add: sk_div_nonnegative sk_mul_nonnegative)
  then have nonneg: "sk_nonnegative (fallbackTextSize ext font d)"
    by (simp add: size floor_nonnegative)
  have iff: "sk_positive (fallbackTextSize ext font d) \<longleftrightarrow> sk_le SK_Scalar1 ?product"
    using product by (simp add: size floor_positive_iff)
  have ratio: "fStrikeToSourceRatio
      (MakeSourceFallback ext font paint surfaceProps scalerContextFlags d) =
      sk_div (getSize font) (fallbackTextSize ext font d)"
    by (simp add: MakeSourceFallback_def commonSetup_eq Let_def)
  have zero: "fallbackTextSize ext font d = SkFinite False 0
      \<and> fStrikeToSourceRatio
          (MakeSourceFallback ext font paint surfaceProps scalerContextFlags d) =
        SkInfinity False"
    if "\<not> sk_positive (fallbackTextSize ext font d)"
  proof -
    have "fallbackTextSize ext font d = SkFinite False 0"
      using nonneg that by (rule nonnegative_not_positive)
    then show ?thesis
      using assms(1) by (simp add: ratio sk_div_by_zero)
  qed
  show ?thesis
    using nonneg iff zero by blast
qed

lemma fallback_example_product:
  "sk_mul (sk_div (SkIntToScalar (4096 - 2)) (SkFinite False 500)) (SkFinite False 100) =
   SkFinite False (13415219 / 16384)"
  by code_simp

theorem fallbackTextSize_positive_iff_witness:
  "sk_positive_finite (getSize example_font) \<and> sk_positive_finite (SkFinite False 500)
   \<and> 2 \<le> kSkSideTooBigForAtlas example_collaborators
   \<and> sk_nonnegative (fallbackTextSize example_collaborators example_font (SkFinite False 500))
   \<and> sk_positive (fallbackTextSize example_collaborators example_font (SkFinite False 500))"
proof -
  have h1: "sk_positive_finite (getSize example_font)"
    by (simp add: example_font_def)
  have h2: "sk_positive_finite (SkFinite False 500)"
    by simp
  have h3: "2 \<le> kSkSideTooBigForAtlas example_collaborators"
    by (simp add: example_collaborators_def)
  note inst = fallbackTextSize_positive_iff [OF h1 h2 h3, of example_paint example_surfaceProps
      kFakeGamma]
  have nonneg: "sk_nonnegative (fallbackTextSize example_collaborators example_font
      (SkFinite False 500))"
    using inst by (rule conjunct1)
  have "sk_positive (fallbackTextSize example_collaborators example_font (SkFinite False 500))
      \<longleftrightarrow> sk_le SK_Scalar1
        (sk_mul (sk_div (SkIntToScalar (kSkSideTooBigForAtlas example_collaborators - 2))
           (SkFinite False 500)) (getSize example_font))"
    using inst by (rule conjunct2 [THEN conjunct1])
  then have pos: "sk_positive (fallbackTextSize example_collaborators example_font
      (SkFinite False 500))"
    using fallback_example_product
    by (simp add: example_collaborators_def example_font_def SK_Scalar1_def)
  show ?thesis
    using h1 h2 h3 nonneg pos by simp
qed

lemma fallback_zero_product_4096:
  "SkScalarFloorToScalar
     (sk_mul (sk_div (SkIntToScalar (4096 - 2)) (SkFinite False 5000)) (SkFinite False 1)) =
   SkFinite False 0"
  by code_simp

lemma fallback_zero_product_256:
  "SkScalarFloorToScalar
     (sk_mul (sk_div (SkIntToScalar (256 - 2)) (SkFinite False 5000)) (SkFinite False 1)) =
   SkFinite False 0"
  by code_simp

text \<open>
  C2 as stated fails: at text size 1 and a largest glyph dimension of 5000, both strictly
  positive, the fallback text size is zero (with an atlas limit of 4096 as with one of
  256), and the ratio is the quotient of 1 by 0.
\<close>

theorem fallbackTextSize_zero_counterexample:
  "sk_positive (getSize (example_font\<lparr>getSize := SkFinite False 1\<rparr>))
   \<and> sk_positive (SkFinite False 5000)
   \<and> fallbackTextSize example_collaborators (example_font\<lparr>getSize := SkFinite False 1\<rparr>)
       (SkFinite False 5000) = SkFinite False 0
   \<and> fallbackTextSize (example_collaborators\<lparr>kSkSideTooBigForAtlas := 256\<rparr>)
       (example_font\<lparr>getSize := SkFinite False 1\<rparr>) (SkFinite False 5000) = SkFinite False 0
   \<and> \<not> sk_positive
         (fallbackTextSize example_collaborators (example_font\<lparr>getSize := SkFinite False 1\<rparr>)
            (SkFinite False 5000))
   \<and> fStrikeToSourceRatio
         (MakeSourceFallback example_collaborators (example_font\<lparr>getSize := SkFinite False 1\<rparr>)
            example_paint example_surfaceProps kFakeGamma (SkFinite False 5000)) =
       SkInfinity False"
  using fallback_zero_product_4096 fallback_zero_product_256
  by (simp add: fallbackTextSize_def MakeSourceFallback_def commonSetup_eq Let_def
      example_collaborators_def example_font_def)

lemma MakePDFVector_eq:
  "MakePDFVector ext typeface size_ptr =
     (commonSetup ext
        ((SkFont_default ext)
           \<lparr>getHinting := SkFontHinting_kNone, getEdging := kAlias,
            getTypeface := Some typeface,
            getSize :=
              SkIntToScalar
                (sint (if sint (getUnitsPerEm typeface) \<le> 0 then 1024
                       else getUnitsPerEm typeface))\<rparr>)
        SkPaint_default \<lparr>flags = 0, pixelGeometry = kUnknown_SkPixelGeometry\<rparr>
        kFakeGammaAndBoostContrast SkMatrix_I SkStrikeSpecStorage_default,
      map_option
        (\<lambda>_. if sint (getUnitsPerEm typeface) \<le> 0 then 1024 else getUnitsPerEm typeface)
        size_ptr)"
  by (cases size_ptr)
    (simp_all add: MakePDFVector_def Let_def setHinting_def setEdging_def setTypeface_def
      setSize_def)

lemma SkIntToScalar_1024: "SkIntToScalar 1024 = SkFinite False 1024"
  by code_simp

text \<open>
  C4. \<^verbatim>\<open>MakePDFVector\<close> takes a default font, turns hinting off, sets aliased
  edging and the typeface, and sets the size to the units-per-em of the typeface
  converted to \<^verbatim>\<open>SkScalar\<close>, with 1024 in place of a value that is zero or negative.
  It returns a value for every typeface: there is no error. The resolved units-per-em
  is written behind \<^verbatim>\<open>size\<close> when that pointer is not null. The descriptor is
  created with a default-constructed paint, the surface properties
  \<^verbatim>\<open>(0, kUnknown_SkPixelGeometry)\<close>, the flags
  \<^verbatim>\<open>kFakeGammaAndBoostContrast\<close> and the identity matrix. For a typeface that
  reports 0 the size of the font is 1024 and 1024 is written behind \<^verbatim>\<open>size\<close>.
  The conversion to \<^verbatim>\<open>SkScalar\<close> is exact for a units-per-em from 1 to \<open>2^24\<close>.
\<close>

theorem MakePDFVector_units_per_em:
  "fAutoDescriptor (fst (MakePDFVector ext typeface size_ptr)) =
     Some (createDescriptor ext
       ((SkFont_default ext)
          \<lparr>getHinting := SkFontHinting_kNone, getEdging := kAlias,
           getTypeface := Some typeface,
           getSize :=
             SkIntToScalar
               (sint (if sint (getUnitsPerEm typeface) \<le> 0 then 1024
                      else getUnitsPerEm typeface))\<rparr>)
       SkPaint_default \<lparr>flags = 0, pixelGeometry = kUnknown_SkPixelGeometry\<rparr>
       kFakeGammaAndBoostContrast SkMatrix_I)
   \<and> fTypeface (fst (MakePDFVector ext typeface size_ptr)) = Some typeface
   \<and> fMaskFilter (fst (MakePDFVector ext typeface size_ptr)) = None
   \<and> fPathEffect (fst (MakePDFVector ext typeface size_ptr)) = None
   \<and> fStrikeToSourceRatio (fst (MakePDFVector ext typeface size_ptr)) = SkFinite False 1
   \<and> snd (MakePDFVector ext typeface (Some old_size)) =
       Some (if sint (getUnitsPerEm typeface) \<le> 0 then 1024 else getUnitsPerEm typeface)
   \<and> snd (MakePDFVector ext typeface None) = None
   \<and> fAutoDescriptor
         (fst (MakePDFVector ext (typeface\<lparr>getUnitsPerEm := 0\<rparr>) size_ptr)) =
       Some (createDescriptor ext
         ((SkFont_default ext)
            \<lparr>getHinting := SkFontHinting_kNone, getEdging := kAlias,
             getTypeface := Some (typeface\<lparr>getUnitsPerEm := 0\<rparr>),
             getSize := SkFinite False 1024\<rparr>)
         SkPaint_default \<lparr>flags = 0, pixelGeometry = kUnknown_SkPixelGeometry\<rparr>
         kFakeGammaAndBoostContrast SkMatrix_I)
   \<and> snd (MakePDFVector ext (typeface\<lparr>getUnitsPerEm := 0\<rparr>) (Some old_size)) = Some 1024
   \<and> (0 < sint (getUnitsPerEm typeface) \<and> sint (getUnitsPerEm typeface) \<le> 2 ^ 24 \<longrightarrow>
        fAutoDescriptor (fst (MakePDFVector ext typeface size_ptr)) =
          Some (createDescriptor ext
            ((SkFont_default ext)
               \<lparr>getHinting := SkFontHinting_kNone, getEdging := kAlias,
                getTypeface := Some typeface,
                getSize := SkFinite False (of_int (sint (getUnitsPerEm typeface)))\<rparr>)
            SkPaint_default \<lparr>flags = 0, pixelGeometry = kUnknown_SkPixelGeometry\<rparr>
            kFakeGammaAndBoostContrast SkMatrix_I))"
  by (simp add: MakePDFVector_eq commonSetup_eq refTypefaceOrDefault_def SkPaint_default_def
      SkStrikeSpecStorage_default_def SK_Scalar1_def SkIntToScalar_1024 SkIntToScalar_exact)

theorem MakePDFVector_units_per_em_witness:
  "0 < sint (getUnitsPerEm example_typeface) \<and> sint (getUnitsPerEm example_typeface) \<le> 2 ^ 24
   \<and> fAutoDescriptor (fst (MakePDFVector example_collaborators example_typeface (Some 0))) =
       Some ((SkFont_default example_collaborators)
               \<lparr>getHinting := SkFontHinting_kNone, getEdging := kAlias,
                getTypeface := Some example_typeface, getSize := SkFinite False 1000\<rparr>,
             SkPaint_default, \<lparr>flags = 0, pixelGeometry = kUnknown_SkPixelGeometry\<rparr>,
             kFakeGammaAndBoostContrast, SkMatrix_I)
   \<and> snd (MakePDFVector example_collaborators example_typeface (Some 0)) = Some 1000"
proof -
  have range: "0 < sint (getUnitsPerEm example_typeface)"
    "sint (getUnitsPerEm example_typeface) \<le> 2 ^ 24"
    by (simp_all add: example_typeface_def)
  note inst = MakePDFVector_units_per_em [of example_collaborators example_typeface "Some 0" 0]
  have "fAutoDescriptor (fst (MakePDFVector example_collaborators example_typeface (Some 0))) =
      Some (createDescriptor example_collaborators
        ((SkFont_default example_collaborators)
           \<lparr>getHinting := SkFontHinting_kNone, getEdging := kAlias,
            getTypeface := Some example_typeface,
            getSize := SkFinite False (of_int (sint (getUnitsPerEm example_typeface)))\<rparr>)
        SkPaint_default \<lparr>flags = 0, pixelGeometry = kUnknown_SkPixelGeometry\<rparr>
        kFakeGammaAndBoostContrast SkMatrix_I)"
    using inst [THEN conjunct2, THEN conjunct2, THEN conjunct2, THEN conjunct2, THEN conjunct2,
        THEN conjunct2, THEN conjunct2, THEN conjunct2, THEN conjunct2] range
    by blast
  then have desc: "fAutoDescriptor
      (fst (MakePDFVector example_collaborators example_typeface (Some 0))) =
       Some ((SkFont_default example_collaborators)
               \<lparr>getHinting := SkFontHinting_kNone, getEdging := kAlias,
                getTypeface := Some example_typeface, getSize := SkFinite False 1000\<rparr>,
             SkPaint_default, \<lparr>flags = 0, pixelGeometry = kUnknown_SkPixelGeometry\<rparr>,
             kFakeGammaAndBoostContrast, SkMatrix_I)"
    by (simp add: example_typeface_def) (simp add: example_collaborators_def)
  have "snd (MakePDFVector example_collaborators example_typeface (Some 0)) =
      Some (if sint (getUnitsPerEm example_typeface) \<le> 0 then 1024
            else getUnitsPerEm example_typeface)"
    using inst by (rule conjunct2 [THEN conjunct2, THEN conjunct2, THEN conjunct2,
        THEN conjunct2, THEN conjunct1])
  then have out: "snd (MakePDFVector example_collaborators example_typeface (Some 0)) =
      Some 1000"
    by (simp add: example_typeface_def)
  show ?thesis
    using range desc out by simp
qed

lemma MakeCanonicalized_eq:
  "MakeCanonicalized ext font paint =
     (if ShouldDrawTextAsPaths ext font (case paint of None \<Rightarrow> SkPaint_default | Some p \<Rightarrow> p)
           SkMatrix_I
      then commonSetup ext (snd (setupForAsPaths ext font None)) SkPaint_default
             (kLegacyFontHost ext) kFakeGammaAndBoostContrast SkMatrix_I
             (SkStrikeSpecStorage_default
                \<lparr>fStrikeToSourceRatio := fst (setupForAsPaths ext font None)\<rparr>)
      else commonSetup ext font (case paint of None \<Rightarrow> SkPaint_default | Some p \<Rightarrow> p)
             (kLegacyFontHost ext) kFakeGammaAndBoostContrast SkMatrix_I
             SkStrikeSpecStorage_default)"
  by (simp add: MakeCanonicalized_def Let_def reset_def split_beta)

text \<open>
  C5. \<^verbatim>\<open>MakeCanonicalized\<close> asks \<^verbatim>\<open>SkDraw::ShouldDrawTextAsPaths\<close> about the font,
  the paint (a default paint when the pointer is null) and the identity matrix. When it
  holds, the font is the one \<^verbatim>\<open>setupForAsPaths(nullptr)\<close> leaves,
  \<open>strikeToSourceRatio\<close> is what that call returns, and the paint is reset to the default
  one, so that the result has no mask filter and no path effect. Otherwise the result is
  that of \<^verbatim>\<open>MakeMask\<close> on the font and paint as they are. In both branches the
  surface properties are the legacy ones, the flags are
  \<^verbatim>\<open>kFakeGammaAndBoostContrast\<close> and the matrix is the identity; the function takes
  no flags from its caller.
\<close>

theorem MakeCanonicalized_branches:
  "MakeCanonicalized ext font paint =
     (if ShouldDrawTextAsPaths ext font (case paint of None \<Rightarrow> SkPaint_default | Some p \<Rightarrow> p)
           SkMatrix_I
      then commonSetup ext (snd (setupForAsPaths ext font None)) SkPaint_default
             (kLegacyFontHost ext) kFakeGammaAndBoostContrast SkMatrix_I
             (SkStrikeSpecStorage_default
                \<lparr>fStrikeToSourceRatio := fst (setupForAsPaths ext font None)\<rparr>)
      else MakeMask ext font (case paint of None \<Rightarrow> SkPaint_default | Some p \<Rightarrow> p)
             (kLegacyFontHost ext) kFakeGammaAndBoostContrast SkMatrix_I)
   \<and> fAutoDescriptor (MakeCanonicalized ext font paint) =
       Some (createDescriptor ext
         (if ShouldDrawTextAsPaths ext font
               (case paint of None \<Rightarrow> SkPaint_default | Some p \<Rightarrow> p) SkMatrix_I
          then snd (setupForAsPaths ext font None) else font)
         (if ShouldDrawTextAsPaths ext font
               (case paint of None \<Rightarrow> SkPaint_default | Some p \<Rightarrow> p) SkMatrix_I
          then SkPaint_default else (case paint of None \<Rightarrow> SkPaint_default | Some p \<Rightarrow> p))
         (kLegacyFontHost ext) kFakeGammaAndBoostContrast SkMatrix_I)
   \<and> fStrikeToSourceRatio (MakeCanonicalized ext font paint) =
       (if ShouldDrawTextAsPaths ext font
             (case paint of None \<Rightarrow> SkPaint_default | Some p \<Rightarrow> p) SkMatrix_I
        then fst (setupForAsPaths ext font None) else SkFinite False 1)
   \<and> fMaskFilter (MakeCanonicalized ext font paint) =
       (if ShouldDrawTextAsPaths ext font
             (case paint of None \<Rightarrow> SkPaint_default | Some p \<Rightarrow> p) SkMatrix_I
        then None else getMaskFilter (case paint of None \<Rightarrow> SkPaint_default | Some p \<Rightarrow> p))
   \<and> fPathEffect (MakeCanonicalized ext font paint) =
       (if ShouldDrawTextAsPaths ext font
             (case paint of None \<Rightarrow> SkPaint_default | Some p \<Rightarrow> p) SkMatrix_I
        then None else getPathEffect (case paint of None \<Rightarrow> SkPaint_default | Some p \<Rightarrow> p))"
  by (simp add: MakeCanonicalized_eq MakeMask_def commonSetup_eq SkPaint_default_def
      SkStrikeSpecStorage_default_def SK_Scalar1_def)

text \<open>
  C6. \<^verbatim>\<open>MakeDefault\<close> returns what \<^verbatim>\<open>MakeCanonicalized\<close> returns for a
  default-constructed font and a null paint: the same descriptor, mask filter, path
  effect, typeface and ratio. A null paint counts as a default-constructed one.
\<close>

theorem MakeDefault_is_MakeCanonicalized:
  "MakeDefault ext = MakeCanonicalized ext (SkFont_default ext) None
   \<and> fAutoDescriptor (MakeDefault ext) =
       fAutoDescriptor (MakeCanonicalized ext (SkFont_default ext) None)
   \<and> fMaskFilter (MakeDefault ext) = fMaskFilter (MakeCanonicalized ext (SkFont_default ext) None)
   \<and> fPathEffect (MakeDefault ext) = fPathEffect (MakeCanonicalized ext (SkFont_default ext) None)
   \<and> fTypeface (MakeDefault ext) = fTypeface (MakeCanonicalized ext (SkFont_default ext) None)
   \<and> fStrikeToSourceRatio (MakeDefault ext) =
       fStrikeToSourceRatio (MakeCanonicalized ext (SkFont_default ext) None)
   \<and> MakeDefault ext = MakeCanonicalized ext (SkFont_default ext) (Some SkPaint_default)"
  by (simp add: MakeDefault_def MakeCanonicalized_eq Let_def)

lemma MakeSDFT_eq:
  "MakeSDFT ext font paint surfaceProps deviceMatrix options =
     (commonSetup ext (fst (InitDistanceFieldFont ext font deviceMatrix options SK_Scalar1))
        (InitDistanceFieldPaint ext paint) surfaceProps SkScalerContextFlags_kNone SkMatrix_I
        (SkStrikeSpecStorage_default
           \<lparr>fStrikeToSourceRatio :=
              snd (InitDistanceFieldFont ext font deviceMatrix options SK_Scalar1)\<rparr>),
      InitDistanceFieldMinMaxScale ext (getSize font) deviceMatrix options)"
  by (simp add: MakeSDFT_def Let_def split_beta SkStrikeSpecStorage_default_def)

text \<open>
  C8. \<^verbatim>\<open>MakeSDFT\<close> takes no flags from its caller and creates the descriptor with
  \<^verbatim>\<open>SkScalerContextFlags::kNone\<close>. The paint is the one
  \<^verbatim>\<open>InitDistanceFieldPaint\<close> returns, the font and \<open>strikeToSourceRatio\<close> are those
  \<^verbatim>\<open>InitDistanceFieldFont\<close> returns, and the two scales returned with the storage
  are those \<^verbatim>\<open>InitDistanceFieldMinMaxScale\<close> computes from the size of the font as
  given, the device matrix and the options.
\<close>

theorem MakeSDFT_flags_and_scales:
  "fAutoDescriptor (fst (MakeSDFT ext font paint surfaceProps deviceMatrix options)) =
     Some (createDescriptor ext
       (fst (InitDistanceFieldFont ext font deviceMatrix options SK_Scalar1))
       (InitDistanceFieldPaint ext paint) surfaceProps SkScalerContextFlags_kNone SkMatrix_I)
   \<and> fStrikeToSourceRatio (fst (MakeSDFT ext font paint surfaceProps deviceMatrix options)) =
       snd (InitDistanceFieldFont ext font deviceMatrix options SK_Scalar1)
   \<and> fMaskFilter (fst (MakeSDFT ext font paint surfaceProps deviceMatrix options)) =
       getMaskFilter (InitDistanceFieldPaint ext paint)
   \<and> fPathEffect (fst (MakeSDFT ext font paint surfaceProps deviceMatrix options)) =
       getPathEffect (InitDistanceFieldPaint ext paint)
   \<and> fTypeface (fst (MakeSDFT ext font paint surfaceProps deviceMatrix options)) =
       Some (refTypefaceOrDefault ext
         (fst (InitDistanceFieldFont ext font deviceMatrix options SK_Scalar1)))
   \<and> snd (MakeSDFT ext font paint surfaceProps deviceMatrix options) =
       InitDistanceFieldMinMaxScale ext (getSize font) deviceMatrix options"
  by (simp add: MakeSDFT_eq commonSetup_eq)

text \<open>
  C10. \<^verbatim>\<open>MakeSDFT\<close> creates its descriptor against the identity matrix. The device
  matrix reaches the result only through \<^verbatim>\<open>InitDistanceFieldFont\<close> and
  \<^verbatim>\<open>InitDistanceFieldMinMaxScale\<close>: two device matrices for which these two agree
  give the same result.
\<close>

theorem MakeSDFT_identity_matrix:
  "fAutoDescriptor (fst (MakeSDFT ext font paint surfaceProps deviceMatrix options)) =
     Some (createDescriptor ext
       (fst (InitDistanceFieldFont ext font deviceMatrix options SK_Scalar1))
       (InitDistanceFieldPaint ext paint) surfaceProps SkScalerContextFlags_kNone SkMatrix_I)
   \<and> (InitDistanceFieldFont ext font m1 options SK_Scalar1 =
          InitDistanceFieldFont ext font m2 options SK_Scalar1
        \<and> InitDistanceFieldMinMaxScale ext (getSize font) m1 options =
          InitDistanceFieldMinMaxScale ext (getSize font) m2 options
        \<longrightarrow> MakeSDFT ext font paint surfaceProps m1 options =
            MakeSDFT ext font paint surfaceProps m2 options)"
  by (simp add: MakeSDFT_eq commonSetup_eq)

lemma example_dfSize_translated:
  "example_dfSize (SkMatrix_I\<lparr>kMTransX := SkFinite False 5\<rparr>) = example_dfSize SkMatrix_I"
  by (simp add: example_dfSize_def SkMatrix_I_def)

theorem MakeSDFT_identity_matrix_witness:
  "InitDistanceFieldFont example_collaborators example_font
       (SkMatrix_I\<lparr>kMTransX := SkFinite False 5\<rparr>) () SK_Scalar1 =
     InitDistanceFieldFont example_collaborators example_font SkMatrix_I () SK_Scalar1
   \<and> InitDistanceFieldMinMaxScale example_collaborators (getSize example_font)
       (SkMatrix_I\<lparr>kMTransX := SkFinite False 5\<rparr>) () =
     InitDistanceFieldMinMaxScale example_collaborators (getSize example_font) SkMatrix_I ()
   \<and> MakeSDFT example_collaborators example_font example_paint example_surfaceProps
       (SkMatrix_I\<lparr>kMTransX := SkFinite False 5\<rparr>) () =
     MakeSDFT example_collaborators example_font example_paint example_surfaceProps
       SkMatrix_I ()
   \<and> map_option (\<lambda>(font, paint, surfaceProps, fl, m). m)
       (fAutoDescriptor (fst (MakeSDFT example_collaborators example_font example_paint
          example_surfaceProps (SkMatrix_I\<lparr>kMTransX := SkFinite False 5\<rparr>) ()))) =
     Some SkMatrix_I"
proof -
  have font: "InitDistanceFieldFont example_collaborators example_font
       (SkMatrix_I\<lparr>kMTransX := SkFinite False 5\<rparr>) () SK_Scalar1 =
     InitDistanceFieldFont example_collaborators example_font SkMatrix_I () SK_Scalar1"
    by (simp add: example_collaborators_def example_dfSize_translated)
  have scales: "InitDistanceFieldMinMaxScale example_collaborators (getSize example_font)
       (SkMatrix_I\<lparr>kMTransX := SkFinite False 5\<rparr>) () =
     InitDistanceFieldMinMaxScale example_collaborators (getSize example_font) SkMatrix_I ()"
    by (simp add: example_collaborators_def example_dfSize_translated)
  note inst = MakeSDFT_identity_matrix [of example_collaborators example_font example_paint
      example_surfaceProps "SkMatrix_I\<lparr>kMTransX := SkFinite False 5\<rparr>" "()"
      "SkMatrix_I\<lparr>kMTransX := SkFinite False 5\<rparr>" SkMatrix_I]
  have same: "MakeSDFT example_collaborators example_font example_paint example_surfaceProps
       (SkMatrix_I\<lparr>kMTransX := SkFinite False 5\<rparr>) () =
     MakeSDFT example_collaborators example_font example_paint example_surfaceProps
       SkMatrix_I ()"
    using inst [THEN conjunct2] font scales by blast
  have "map_option (\<lambda>(font, paint, surfaceProps, fl, m). m)
       (fAutoDescriptor (fst (MakeSDFT example_collaborators example_font example_paint
          example_surfaceProps (SkMatrix_I\<lparr>kMTransX := SkFinite False 5\<rparr>) ()))) =
     Some SkMatrix_I"
    by (simp add: inst [THEN conjunct1]) (simp add: example_collaborators_def)
  then show ?thesis
    using font scales same by simp
qed

lemma MakePath_eq:
  "MakePath ext font paint surfaceProps scalerContextFlags =
     commonSetup ext (setSubpixel False (snd (setupForAsPaths ext font (Some paint))))
       (setupForAsPaths_paint ext font paint) surfaceProps scalerContextFlags SkMatrix_I
       (SkStrikeSpecStorage_default
          \<lparr>fStrikeToSourceRatio := fst (setupForAsPaths ext font (Some paint))\<rparr>)"
  by (simp add: MakePath_def Let_def split_beta)

text \<open>Every constructor leaves a descriptor and a typeface in the storage.\<close>

lemma constructors_set_descriptor_and_typeface:
  "fAutoDescriptor (MakeMask ext font paint surfaceProps scalerContextFlags deviceMatrix) \<noteq> None
   \<and> fTypeface (MakeMask ext font paint surfaceProps scalerContextFlags deviceMatrix) \<noteq> None"
  "fAutoDescriptor (MakePath ext font paint surfaceProps scalerContextFlags) \<noteq> None
   \<and> fTypeface (MakePath ext font paint surfaceProps scalerContextFlags) \<noteq> None"
  "fAutoDescriptor (MakeSourceFallback ext font paint surfaceProps scalerContextFlags d) \<noteq> None
   \<and> fTypeface (MakeSourceFallback ext font paint surfaceProps scalerContextFlags d) \<noteq> None"
  "fAutoDescriptor (MakeCanonicalized ext font paint') \<noteq> None
   \<and> fTypeface (MakeCanonicalized ext font paint') \<noteq> None"
  "fAutoDescriptor (MakeDefault ext) \<noteq> None \<and> fTypeface (MakeDefault ext) \<noteq> None"
  "fAutoDescriptor (fst (MakePDFVector ext typeface size_ptr)) \<noteq> None
   \<and> fTypeface (fst (MakePDFVector ext typeface size_ptr)) \<noteq> None"
  "fAutoDescriptor (fst (MakeSDFT ext font paint surfaceProps deviceMatrix options)) \<noteq> None
   \<and> fTypeface (fst (MakeSDFT ext font paint surfaceProps deviceMatrix options)) \<noteq> None"
  by (simp_all add: MakeMask_def MakePath_eq MakeSourceFallback_def MakeCanonicalized_eq
      MakeDefault_def MakePDFVector_eq MakeSDFT_eq commonSetup_eq Let_def)

lemma example_storage_eq:
  "example_storage =
     \<lparr>fAutoDescriptor =
        Some (example_font, example_paint, example_surfaceProps, kFakeGamma, SkMatrix_I),
      fMaskFilter = Some 7, fPathEffect = Some 9, fTypeface = Some example_typeface,
      fStrikeToSourceRatio = SkFinite False 1\<rparr>"
  by (simp add: example_storage_def MakeMask_def commonSetup_eq SkStrikeSpecStorage_default_def
      SK_Scalar1_def refTypefaceOrDefault_def example_collaborators_def)
    (simp add: example_font_def example_paint_def)

text \<open>
  C9, as the code has it. A storage that a constructor has set up holds a descriptor and
  a typeface. Resolving it leaves the storage as it was, whichever cache is used, and
  makes one call to the cache. \<^verbatim>\<open>findOrCreateExclusiveStrike\<close> and
  \<^verbatim>\<open>findOrCreateScopedStrike\<close> pass the stored descriptor, the stored path effect and
  mask filter and the stored typeface; \<^verbatim>\<open>findOrCreateGrStrike\<close> passes the stored
  descriptor alone. A cache that keeps its calls has exactly one more call afterwards.
\<close>

theorem resolvers_call_cache_once:
  assumes "fAutoDescriptor this = Some desc"
    and "fTypeface this = Some typeface"
  shows "findOrCreateExclusiveStrike cache_step (this, cache) =
      Inr (fst (cache_step
                 (findOrCreateStrikeExclusive desc
                    (SkScalerContextEffects (fPathEffect this) (fMaskFilter this)) typeface)
                 cache),
           this,
           snd (cache_step
                 (findOrCreateStrikeExclusive desc
                    (SkScalerContextEffects (fPathEffect this) (fMaskFilter this)) typeface)
                 cache))
    \<and> findOrCreateScopedStrike cache_step (this, cache) =
      Inr (fst (cache_step
                 (findOrCreateScopedStrike_call desc
                    (SkScalerContextEffects (fPathEffect this) (fMaskFilter this)) typeface)
                 cache),
           this,
           snd (cache_step
                 (findOrCreateScopedStrike_call desc
                    (SkScalerContextEffects (fPathEffect this) (fMaskFilter this)) typeface)
                 cache))
    \<and> findOrCreateGrStrike cache_step (this, cache) =
      Inr (fst (cache_step (getStrike desc) cache), this,
           snd (cache_step (getStrike desc) cache))
    \<and> findOrCreateExclusiveStrike recording_cache (this, calls) =
      Inr (length calls, this,
           calls @ [findOrCreateStrikeExclusive desc
                      (SkScalerContextEffects (fPathEffect this) (fMaskFilter this)) typeface])
    \<and> findOrCreateScopedStrike recording_cache (this, calls) =
      Inr (length calls, this,
           calls @ [findOrCreateScopedStrike_call desc
                      (SkScalerContextEffects (fPathEffect this) (fMaskFilter this)) typeface])
    \<and> findOrCreateGrStrike recording_cache (this, calls) =
      Inr (length calls, this, calls @ [getStrike desc])"
  using assms
  by (simp add: findOrCreateExclusiveStrike_def findOrCreateScopedStrike_def
      findOrCreateGrStrike_def recording_cache_def split_beta)

theorem resolvers_call_cache_once_witness:
  "fAutoDescriptor example_storage =
     Some (example_font, example_paint, example_surfaceProps, kFakeGamma, SkMatrix_I)
   \<and> fTypeface example_storage = Some example_typeface
   \<and> findOrCreateExclusiveStrike recording_cache (example_storage, []) =
      Inr (0, example_storage,
           [findOrCreateStrikeExclusive
              (example_font, example_paint, example_surfaceProps, kFakeGamma, SkMatrix_I)
              (SkScalerContextEffects (Some 9) (Some 7)) example_typeface])
   \<and> findOrCreateScopedStrike recording_cache (example_storage, []) =
      Inr (0, example_storage,
           [findOrCreateScopedStrike_call
              (example_font, example_paint, example_surfaceProps, kFakeGamma, SkMatrix_I)
              (SkScalerContextEffects (Some 9) (Some 7)) example_typeface])
   \<and> findOrCreateGrStrike recording_cache (example_storage, []) =
      Inr (0, example_storage,
           [getStrike (example_font, example_paint, example_surfaceProps, kFakeGamma,
              SkMatrix_I)])"
proof -
  have h1: "fAutoDescriptor example_storage =
     Some (example_font, example_paint, example_surfaceProps, kFakeGamma, SkMatrix_I)"
    by (simp add: example_storage_eq)
  have h2: "fTypeface example_storage = Some example_typeface"
    by (simp add: example_storage_eq)
  have effects: "fPathEffect example_storage = Some 9" "fMaskFilter example_storage = Some 7"
    by (simp_all add: example_storage_eq)
  show ?thesis
    using h1 h2 resolvers_call_cache_once [OF h1 h2, where calls = "[]",
        where cache_step = "recording_cache" and cache = "[]"]
    by (simp add: effects recording_cache_def)
qed

text \<open>
  C9 as stated fails for \<^verbatim>\<open>findOrCreateGrStrike\<close>: the one call it makes,
  \<^verbatim>\<open>getStrike\<close>, carries the descriptor and neither effects nor typeface, although
  the storage holds a mask filter, a path effect and a typeface. The cache receives the
  same call from a storage with the same descriptor and none of the three.
\<close>

theorem findOrCreateGrStrike_counterexample:
  "findOrCreateGrStrike recording_cache (example_storage, []) =
     Inr (0, example_storage,
          [getStrike (example_font, example_paint, example_surfaceProps, kFakeGamma,
             SkMatrix_I)])
   \<and> call_effects
       (getStrike (example_font, example_paint, example_surfaceProps, kFakeGamma, SkMatrix_I)) =
     None
   \<and> call_typeface
       (getStrike (example_font, example_paint, example_surfaceProps, kFakeGamma, SkMatrix_I)) =
     None
   \<and> fMaskFilter example_storage = Some 7
   \<and> fPathEffect example_storage = Some 9
   \<and> fTypeface example_storage = Some example_typeface
   \<and> findOrCreateGrStrike recording_cache
       (example_storage\<lparr>fMaskFilter := None, fPathEffect := None, fTypeface := None\<rparr>, []) =
     Inr (0, example_storage\<lparr>fMaskFilter := None, fPathEffect := None, fTypeface := None\<rparr>,
          [getStrike (example_font, example_paint, example_surfaceProps, kFakeGamma,
             SkMatrix_I)])"
  by (simp add: example_storage_eq findOrCreateGrStrike_def recording_cache_def)

text \<open>
  C3, as the code has it. \<^verbatim>\<open>MakePath\<close> switches subpixel positioning off on the font
  that \<^verbatim>\<open>setupForAsPaths\<close> leaves, creates the descriptor against the identity matrix
  (it takes no device matrix) and stores the value that \<^verbatim>\<open>setupForAsPaths\<close> returns
  as \<open>strikeToSourceRatio\<close>, whatever \<^verbatim>\<open>setupForAsPaths\<close> does. With the canonical
  form of the specification that value is \<open>requestedSize / canonicalSize\<close> in
  \<^verbatim>\<open>SkScalar\<close>. It is \<open>+0\<close> for a font of size 0. For a requested size in
  \<open>[2^-125, 2^126)\<close> with \<open>requestedSize / canonicalSize\<close> in \<open>[2^-126, 2^127)\<close> the
  ratio is a positive finite number, and the product of the canonical size and the ratio
  is within \<open>requestedSize / 2^22\<close> of the requested size.
\<close>

theorem MakePath_subpixel_identity_ratio:
  "fAutoDescriptor (MakePath ext font paint surfaceProps scalerContextFlags) =
     Some (createDescriptor ext
       ((snd (setupForAsPaths ext font (Some paint)))\<lparr>isSubpixel := False\<rparr>)
       (setupForAsPaths_paint ext font paint) surfaceProps scalerContextFlags SkMatrix_I)
   \<and> fStrikeToSourceRatio (MakePath ext font paint surfaceProps scalerContextFlags) =
       fst (setupForAsPaths ext font (Some paint))
   \<and> fAutoDescriptor
         (MakePath (ext\<lparr>setupForAsPaths := setupForAsPaths_spec canonicalSize\<rparr>) font paint
            surfaceProps scalerContextFlags) =
       Some (createDescriptor ext
         (font\<lparr>getSize := canonicalSize, getHinting := SkFontHinting_kNone,
               isSubpixel := False\<rparr>)
         (setupForAsPaths_paint ext font paint) surfaceProps scalerContextFlags SkMatrix_I)
   \<and> fStrikeToSourceRatio
         (MakePath (ext\<lparr>setupForAsPaths := setupForAsPaths_spec canonicalSize\<rparr>) font paint
            surfaceProps scalerContextFlags) =
       sk_div (getSize font) canonicalSize
   \<and> (getSize font = SkFinite False 0 \<and> sk_positive_finite canonicalSize \<longrightarrow>
        fStrikeToSourceRatio
          (MakePath (ext\<lparr>setupForAsPaths := setupForAsPaths_spec canonicalSize\<rparr>) font paint
             surfaceProps scalerContextFlags) =
        SkFinite False 0)
   \<and> (getSize font = SkFinite False sr \<and> canonicalSize = SkFinite False cr \<and> 0 < cr
        \<and> pow2 (- 125) \<le> sr \<and> sr < pow2 126
        \<and> pow2 (- 126) \<le> sr / cr \<and> sr / cr < pow2 127 \<longrightarrow>
        (\<exists>v w.
           fStrikeToSourceRatio
             (MakePath (ext\<lparr>setupForAsPaths := setupForAsPaths_spec canonicalSize\<rparr>) font
                paint surfaceProps scalerContextFlags) =
           SkFinite False v
           \<and> 0 < v
           \<and> sk_mul canonicalSize (SkFinite False v) = SkFinite False w
           \<and> \<bar>w - sr\<bar> \<le> sr / 2 ^ 22))"
proof -
  let ?ext = "ext\<lparr>setupForAsPaths := setupForAsPaths_spec canonicalSize\<rparr>"
  have desc: "fAutoDescriptor (MakePath ext font paint surfaceProps scalerContextFlags) =
     Some (createDescriptor ext
       ((snd (setupForAsPaths ext font (Some paint)))\<lparr>isSubpixel := False\<rparr>)
       (setupForAsPaths_paint ext font paint) surfaceProps scalerContextFlags SkMatrix_I)"
    by (simp add: MakePath_eq commonSetup_eq setSubpixel_def)
  have ratio: "fStrikeToSourceRatio (MakePath ext font paint surfaceProps scalerContextFlags) =
       fst (setupForAsPaths ext font (Some paint))"
    by (simp add: MakePath_eq commonSetup_eq)
  have desc_spec: "fAutoDescriptor
         (MakePath ?ext font paint surfaceProps scalerContextFlags) =
       Some (createDescriptor ext
         (font\<lparr>getSize := canonicalSize, getHinting := SkFontHinting_kNone,
               isSubpixel := False\<rparr>)
         (setupForAsPaths_paint ext font paint) surfaceProps scalerContextFlags SkMatrix_I)"
    by (simp add: MakePath_eq commonSetup_eq setSubpixel_def setupForAsPaths_spec_def)
  have ratio_spec: "fStrikeToSourceRatio
         (MakePath ?ext font paint surfaceProps scalerContextFlags) =
       sk_div (getSize font) canonicalSize"
    by (simp add: MakePath_eq commonSetup_eq setupForAsPaths_spec_def)
  have zero: "sk_div (getSize font) canonicalSize = SkFinite False 0"
    if "getSize font = SkFinite False 0" "sk_positive_finite canonicalSize"
    using that by (cases canonicalSize) (simp_all add: round_binary32_def)
  have normal: "\<exists>v w. sk_div (getSize font) canonicalSize = SkFinite False v \<and> 0 < v
      \<and> sk_mul canonicalSize (SkFinite False v) = SkFinite False w
      \<and> \<bar>w - sr\<bar> \<le> sr / 2 ^ 22"
    if "getSize font = SkFinite False sr" "canonicalSize = SkFinite False cr" "0 < cr"
      "pow2 (- 125) \<le> sr" "sr < pow2 126" "pow2 (- 126) \<le> sr / cr" "sr / cr < pow2 127"
    using ratio_roundtrip [OF that(3-7)] by (simp only: that(1,2))
  show ?thesis
    unfolding ratio_spec using desc ratio desc_spec zero normal by blast
qed

lemma example_path_ratio:
  "sk_div (SkFinite False 100) (SkFinite False 64) = SkFinite False (25 / 16)"
  "sk_mul (SkFinite False 64) (SkFinite False (25 / 16)) = SkFinite False 100"
  by code_simp+

lemma example_setupForAsPaths:
  "example_collaborators\<lparr>setupForAsPaths := setupForAsPaths_spec (SkFinite False 64)\<rparr> =
   example_collaborators"
  by (simp add: example_collaborators_def)

theorem MakePath_subpixel_identity_ratio_witness:
  "getSize example_font = SkFinite False 100
   \<and> (0::rat) < 64 \<and> pow2 (- 125) \<le> 100 \<and> 100 < pow2 126
   \<and> pow2 (- 126) \<le> 100 / 64 \<and> 100 / 64 < pow2 127
   \<and> fStrikeToSourceRatio
       (MakePath example_collaborators example_font example_paint example_surfaceProps
          kFakeGamma) =
     SkFinite False (25 / 16)
   \<and> sk_mul (SkFinite False 64) (SkFinite False (25 / 16)) = SkFinite False 100
   \<and> (\<exists>v w.
        fStrikeToSourceRatio
          (MakePath example_collaborators example_font example_paint example_surfaceProps
             kFakeGamma) =
        SkFinite False v
        \<and> 0 < v
        \<and> sk_mul (SkFinite False 64) (SkFinite False v) = SkFinite False w
        \<and> \<bar>w - 100\<bar> \<le> 100 / 2 ^ 22)
   \<and> getSize (example_font\<lparr>getSize := SkFinite False 0\<rparr>) = SkFinite False 0
   \<and> sk_positive_finite (SkFinite False 64)
   \<and> fStrikeToSourceRatio
       (MakePath example_collaborators (example_font\<lparr>getSize := SkFinite False 0\<rparr>)
          example_paint example_surfaceProps kFakeGamma) =
     SkFinite False 0"
proof -
  have size: "getSize example_font = SkFinite False 100"
    by (simp add: example_font_def)
  have range: "(0::rat) < 64" "pow2 (- 125) \<le> 100" "100 < pow2 126"
    "pow2 (- 126) \<le> 100 / 64" "100 / 64 < pow2 127"
    by (simp_all add: pow2_def)
  note inst = MakePath_subpixel_identity_ratio [of example_collaborators example_font
      example_paint example_surfaceProps kFakeGamma "SkFinite False 64" 100 64,
      unfolded example_setupForAsPaths]
  have "fStrikeToSourceRatio
       (MakePath example_collaborators example_font example_paint example_surfaceProps
          kFakeGamma) =
     sk_div (getSize example_font) (SkFinite False 64)"
    using inst by (rule conjunct2 [THEN conjunct2, THEN conjunct2, THEN conjunct1])
  then have ratio: "fStrikeToSourceRatio
       (MakePath example_collaborators example_font example_paint example_surfaceProps
          kFakeGamma) =
     SkFinite False (25 / 16)"
    by (simp only: size example_path_ratio(1))
  have roundtrip: "\<exists>v w.
        fStrikeToSourceRatio
          (MakePath example_collaborators example_font example_paint example_surfaceProps
             kFakeGamma) =
        SkFinite False v
        \<and> 0 < v
        \<and> sk_mul (SkFinite False 64) (SkFinite False v) = SkFinite False w
        \<and> \<bar>w - 100\<bar> \<le> 100 / 2 ^ 22"
    using inst [THEN conjunct2, THEN conjunct2, THEN conjunct2, THEN conjunct2, THEN conjunct2]
      size range
    by blast
  note inst0 = MakePath_subpixel_identity_ratio [of example_collaborators
      "example_font\<lparr>getSize := SkFinite False 0\<rparr>"
      example_paint example_surfaceProps kFakeGamma "SkFinite False 64" 100 64,
      unfolded example_setupForAsPaths]
  have zero: "fStrikeToSourceRatio
       (MakePath example_collaborators (example_font\<lparr>getSize := SkFinite False 0\<rparr>)
          example_paint example_surfaceProps kFakeGamma) =
     SkFinite False 0"
    using inst0 [THEN conjunct2, THEN conjunct2, THEN conjunct2, THEN conjunct2,
        THEN conjunct1]
    by simp
  show ?thesis
    using size range ratio example_path_ratio(2) roundtrip zero by simp
qed

lemma example_path_ratio_underflow:
  "sk_div (SkFinite False (1 / 2 ^ 149)) (SkFinite False 64) = SkFinite False 0"
  by code_simp

text \<open>
  C3 as stated fails with the canonical form of the specification: for a font of size 0
  the ratio is 0, which is not strictly positive. The same holds for the smallest
  positive size, \<open>2^-149\<close>, whose quotient by 64 rounds to 0.
\<close>

theorem MakePath_ratio_zero_counterexample:
  "fStrikeToSourceRatio
     (MakePath example_collaborators (example_font\<lparr>getSize := SkFinite False 0\<rparr>)
        example_paint example_surfaceProps kFakeGamma) =
     SkFinite False 0
   \<and> \<not> sk_positive
       (fStrikeToSourceRatio
          (MakePath example_collaborators (example_font\<lparr>getSize := SkFinite False 0\<rparr>)
             example_paint example_surfaceProps kFakeGamma))
   \<and> sk_positive (getSize (example_font\<lparr>getSize := SkFinite False (1 / 2 ^ 149)\<rparr>))
   \<and> \<not> sk_positive
       (fStrikeToSourceRatio
          (MakePath example_collaborators
             (example_font\<lparr>getSize := SkFinite False (1 / 2 ^ 149)\<rparr>)
             example_paint example_surfaceProps kFakeGamma))"
  using example_path_ratio_underflow
  by (simp add: MakePath_eq commonSetup_eq example_collaborators_def setupForAsPaths_spec_def
      round_binary32_def)

end
